theory Spec2Isabelle
  imports Main "HOL-Library.Sublist" "HOL-Library.AList"
begin

section \<open>Account records and the credential store\<close>

text \<open>
  The account record stored by \<^verbatim>\<open>src/endpoints/users-public.js\<close> and
  \<^verbatim>\<open>src/endpoints/users-admin.js\<close> (the object literal of \<^verbatim>\<open>router.post('/create')\<close>).
  \<^verbatim>\<open>created\<close> is a \<^verbatim>\<open>Date.now()\<close> value in milliseconds.
\<close>

record User =
  handle :: string
  name :: string
  created :: nat
  password :: string
  salt :: string
  admin :: bool
  enabled :: bool

text \<open>
  \<^verbatim>\<open>storage\<close> is the \<^verbatim>\<open>node-persist\<close> key-value store: a list of key/value pairs,
  read with \<^verbatim>\<open>getItem\<close>, overwritten with \<^verbatim>\<open>setItem\<close>, deleted with \<^verbatim>\<open>removeItem\<close> and
  enumerated (filtered on the key) with \<^verbatim>\<open>values\<close>. Its operations are taken to succeed; a
  store that throws makes every handler answer 500 from its \<^verbatim>\<open>catch\<close>.
\<close>

type_synonym storage = "(string \<times> User) list"

definition storage_getItem :: "storage \<Rightarrow> string \<Rightarrow> User option" where
  "storage_getItem st k = map_of st k"

definition storage_setItem :: "storage \<Rightarrow> string \<Rightarrow> User \<Rightarrow> storage" where
  "storage_setItem st k v = AList.update k v st"

definition storage_removeItem :: "storage \<Rightarrow> string \<Rightarrow> storage" where
  "storage_removeItem st k = AList.delete k st"

definition storage_values :: "(string \<Rightarrow> bool) \<Rightarrow> storage \<Rightarrow> User list" where
  "storage_values p st = map snd (filter (\<lambda>kv. p (fst kv)) st)"

text \<open>
  What the handlers import from \<^verbatim>\<open>../users.js\<close>, \<^verbatim>\<open>../constants.js\<close> and \<^verbatim>\<open>lodash\<close>,
  which the sources do not include; every theorem below holds for any choice of them.
  \<^item> \<^verbatim>\<open>getPasswordHash\<close> takes the request's password field (possibly absent) and a salt;
    \<open>None\<close> is a thrown exception, which every handler's \<^verbatim>\<open>catch\<close> turns into status 500.
  \<^item> \<^verbatim>\<open>slug\<close> is \<^verbatim>\<open>lodash.kebabCase(String(x).toLowerCase().trim())\<close>.
\<close>

record deps =
  KEY_PREFIX :: string
  toKey :: "string \<Rightarrow> string"
  getPasswordHash :: "string option \<Rightarrow> string \<Rightarrow> string option"
  slug :: "string \<Rightarrow> string"
  DEFAULT_USER_handle :: string

text \<open>
  Modelled from the spec: \<^verbatim>\<open>getAllUserHandles\<close> of \<^verbatim>\<open>../users.js\<close> is missing from the
  sources; the spec has handle uniqueness "enforced at creation time by scanning existing
  handles", so it lists the handle of every stored account.
\<close>

definition getAllUserHandles :: "deps \<Rightarrow> storage \<Rightarrow> string list" where
  "getAllUserHandles d st = map handle (storage_values (prefix (KEY_PREFIX d)) st)"

section \<open>Rate limiter\<close>

text \<open>
  Modelled from the spec: \<^verbatim>\<open>RateLimiterMemory\<close> comes from the package
  \<^verbatim>\<open>rate-limiter-flexible\<close>, which is not part of the sources. Section 4.2 of the spec:
  \<^verbatim>\<open>consume(key)\<close> takes one point of the key's budget and fails with \<^verbatim>\<open>RateLimited\<close>, taking
  nothing, when the budget is exhausted within the current window; \<^verbatim>\<open>delete(key)\<close> restores
  the full budget; a key with no prior activity has the full budget; the window is the fixed
  one, \<^verbatim>\<open>duration\<close> seconds from the first consumption in it.
  A bucket holds the points consumed in its window and the time (ms) at which the window
  ends.
\<close>

record RateLimiterMemory =
  points :: nat
  duration :: nat

type_synonym buckets = "string \<rightharpoonup> nat \<times> nat"

datatype exception = RateLimiterRes

text \<open>
  Modelled from the spec: the points a key has consumed in its current window (none once
  the window has ended), what is left of its budget, and the end of the window a
  consumption at the time \<open>now\<close> is charged to.
\<close>

definition consumedPoints :: "buckets \<Rightarrow> nat \<Rightarrow> string \<Rightarrow> nat" where
  "consumedPoints bs now key =
     (case bs key of
        None \<Rightarrow> 0
      | Some (c, e) \<Rightarrow> if now < e then c else 0)"

definition remainingPoints :: "RateLimiterMemory \<Rightarrow> buckets \<Rightarrow> nat \<Rightarrow> string \<Rightarrow> nat" where
  "remainingPoints lim bs now key = points lim - consumedPoints bs now key"

definition window_end :: "RateLimiterMemory \<Rightarrow> buckets \<Rightarrow> nat \<Rightarrow> string \<Rightarrow> nat" where
  "window_end lim bs now key =
     (case bs key of
        None \<Rightarrow> now + duration lim * 1000
      | Some (c, e) \<Rightarrow> if now < e then e else now + duration lim * 1000)"

text \<open>
  Modelled from the spec: \<^verbatim>\<open>RateLimiterMemory.consume\<close>, which rejects with \<^verbatim>\<open>RateLimiterRes\<close>
  when no point is left, and \<^verbatim>\<open>RateLimiterMemory.delete\<close>.
\<close>

definition consume :: "RateLimiterMemory \<Rightarrow> buckets \<Rightarrow> nat \<Rightarrow> string \<Rightarrow> exception + buckets" where
  "consume lim bs now key =
     (if remainingPoints lim bs now key = 0 then Inl RateLimiterRes
      else Inr (bs(key \<mapsto> (consumedPoints bs now key + 1, window_end lim bs now key))))"

definition limiter_delete :: "buckets \<Rightarrow> string \<Rightarrow> buckets" where
  "limiter_delete bs key = bs(key := None)"

text \<open>The two limiters of \<^verbatim>\<open>users-public.js\<close>, lines 25 to 32.\<close>

definition loginLimiter :: RateLimiterMemory where
  "loginLimiter = \<lparr>points = 5, duration = 60\<rparr>"

definition recoverLimiter :: RateLimiterMemory where
  "recoverLimiter = \<lparr>points = 5, duration = 300\<rparr>"

section \<open>Expiring cache\<close>

text \<open>
  Modelled from the spec: the class \<^verbatim>\<open>Cache\<close> of \<^verbatim>\<open>../util.js\<close> is missing from the
  sources. Section 4.1 of the spec: \<^verbatim>\<open>set\<close> stores the value with expiry now + TTL,
  overwriting the entry of the key; \<^verbatim>\<open>get\<close> returns the value if present and not expired,
  else a miss; \<^verbatim>\<open>remove\<close> deletes and is a no-op on an absent key.
  An entry is live strictly before its expiry.
\<close>

type_synonym cache = "string \<rightharpoonup> string \<times> nat"

text \<open>
  Modelled from the spec: \<^verbatim>\<open>Cache.set\<close>, \<^verbatim>\<open>Cache.get\<close> (\<open>None\<close> is the miss) and
  \<^verbatim>\<open>Cache.remove\<close>, at the time \<open>now\<close>.
\<close>

definition Cache_set :: "nat \<Rightarrow> cache \<Rightarrow> nat \<Rightarrow> string \<Rightarrow> string \<Rightarrow> cache" where
  "Cache_set ttl c now key v = c(key \<mapsto> (v, now + ttl))"

definition Cache_get :: "cache \<Rightarrow> nat \<Rightarrow> string \<Rightarrow> string option" where
  "Cache_get c now key =
     (case c key of
        None \<Rightarrow> None
      | Some (v, expiry) \<Rightarrow> if now < expiry then Some v else None)"

definition Cache_remove :: "cache \<Rightarrow> string \<Rightarrow> cache" where
  "Cache_remove c key = c(key := None)"

text \<open>\<^verbatim>\<open>const MFA_CACHE = new Cache(5 * 60 * 1000)\<close>: the TTL in milliseconds.\<close>

definition MFA_CACHE_ttl :: nat where
  "MFA_CACHE_ttl = 5 * 60 * 1000"

definition DISCREET_LOGIN :: bool where
  "DISCREET_LOGIN = False"

section \<open>Server state, requests and responses\<close>

text \<open>
  The mutable state the handlers share: the store, the buckets of the two limiters, the
  entries of \<^verbatim>\<open>MFA_CACHE\<close>, and the handles whose data directory exists on disk (the
  directory \<^verbatim>\<open>getUserDirectories(handle).root\<close> that \<^verbatim>\<open>/delete\<close> removes when purging).
\<close>

record server =
  storage :: storage
  login_buckets :: buckets
  recover_buckets :: buckets
  MFA_CACHE :: cache
  data_roots :: "string set"

text \<open>
  A request: the fields of \<^verbatim>\<open>request.body\<close> that the handlers read (a string, or absent),
  \<^verbatim>\<open>getIpFromRequest(request)\<close>, the \<^verbatim>\<open>handle\<close> field of \<^verbatim>\<open>request.session\<close> when there is a
  session, \<^verbatim>\<open>request.user.profile.handle\<close>, and the values the handler draws from the runtime
  while it serves the request: \<^verbatim>\<open>Date.now()\<close>, \<^verbatim>\<open>crypto.randomInt(1000, 9999)\<close> and
  \<^verbatim>\<open>getPasswordSalt()\<close>.
\<close>

record request =
  body_handle :: "string option"
  body_password :: "string option"
  body_code :: "string option"
  body_newPassword :: "string option"
  body_name :: "string option"
  body_purge :: bool
  ip :: string
  session :: "string option option"
  user_profile_handle :: string
  Date_now :: nat
  randomInt :: nat
  getPasswordSalt :: string

text \<open>
  What a handler sends: \<^verbatim>\<open>sendStatus(n)\<close> (the status text only), \<^verbatim>\<open>{error: message}\<close>,
  \<^verbatim>\<open>{handle: h}\<close>, or \<^verbatim>\<open>{total: t, enabled: e}\<close>; with the status code.
\<close>

datatype payload =
    StatusText
  | Error string
  | Handle string
  | Counts nat nat

datatype response = Response (status: nat) (body: payload)

text \<open>A body field is truthy when it is a non-empty string.\<close>

fun truthy :: "string option \<Rightarrow> bool" where
  "truthy None = False"
| "truthy (Some v) = (v \<noteq> [])"

text \<open>
  \<^verbatim>\<open>String(n)\<close> of a non-negative integer: its decimal digits (\<open>digit_char\<close> is applied
  below 10 only).
\<close>

definition digit_char :: "nat \<Rightarrow> char" where
  "digit_char n = ''0123456789'' ! n"

fun String_nat :: "nat \<Rightarrow> string" where
  "String_nat n =
     (if n < 10 then [digit_char n]
      else String_nat (n div 10) @ [digit_char (n mod 10)])"

declare String_nat.simps [simp del]

section \<open>Public endpoints\<close>

text \<open>\<^verbatim>\<open>router.post('/list')\<close> and \<^verbatim>\<open>router.get('/count')\<close>.\<close>

definition post_list :: "deps \<Rightarrow> server \<Rightarrow> response" where
  "post_list d s =
     (if DISCREET_LOGIN then Response 204 StatusText
      else
        let users = storage_values (prefix (KEY_PREFIX d)) (storage s);
            enabledUsers = filter enabled users
        in Response 200 (Counts (length users) (length enabledUsers)))"

definition get_count :: "deps \<Rightarrow> server \<Rightarrow> response" where
  "get_count d s =
     (if DISCREET_LOGIN then Response 204 StatusText
      else
        let users = storage_values (prefix (KEY_PREFIX d)) (storage s);
            enabledUsers = filter enabled users
        in Response 200 (Counts (length users) (length enabledUsers)))"

text \<open>
  \<^verbatim>\<open>router.post('/login')\<close>. The result is the response, \<^verbatim>\<open>request.session\<close> after the call
  and the state after the call.
\<close>

definition post_login :: "deps \<Rightarrow> server \<Rightarrow> request \<Rightarrow> response \<times> string option option \<times> server" where
  "post_login d s req =
     (if \<not> truthy (body_handle req) then
        (Response 400 (Error ''Missing required fields''), session req, s)
      else
        case consume loginLimiter (login_buckets s) (Date_now req) (ip req) of
          Inl RateLimiterRes \<Rightarrow>
            (Response 429 (Error ''Too many attempts. Try again later or recover your password.''),
             session req, s)
        | Inr bs \<Rightarrow>
            let s1 = s\<lparr>login_buckets := bs\<rparr> in
            (case storage_getItem (storage s1) (toKey d (the (body_handle req))) of
              None \<Rightarrow> (Response 403 (Error ''Incorrect credentials''), session req, s1)
            | Some user \<Rightarrow>
                if \<not> enabled user then
                  (Response 403 (Error ''User is disabled''), session req, s1)
                else if password user \<noteq> [] \<and>
                        getPasswordHash d (body_password req) (salt user) = None then
                  (Response 500 StatusText, session req, s1)
                else if password user \<noteq> [] \<and>
                        Some (password user) \<noteq> getPasswordHash d (body_password req) (salt user) then
                  (Response 403 (Error ''Incorrect credentials''), session req, s1)
                else if session req = None then
                  (Response 500 StatusText, session req, s1)
                else
                  (Response 200 (Handle (handle user)), Some (Some (handle user)),
                   s1\<lparr>login_buckets := limiter_delete (login_buckets s1) (ip req)\<rparr>)))"

text \<open>\<^verbatim>\<open>router.post('/recover-step1')\<close>. The code is printed on the console, not returned.\<close>

definition post_recover_step1 :: "deps \<Rightarrow> server \<Rightarrow> request \<Rightarrow> response \<times> server" where
  "post_recover_step1 d s req =
     (if \<not> truthy (body_handle req) then
        (Response 400 (Error ''Missing required fields''), s)
      else
        case consume recoverLimiter (recover_buckets s) (Date_now req) (ip req) of
          Inl RateLimiterRes \<Rightarrow>
            (Response 429 (Error ''Too many attempts. Try again later or contact your admin.''), s)
        | Inr bs \<Rightarrow>
            let s1 = s\<lparr>recover_buckets := bs\<rparr> in
            (case storage_getItem (storage s1) (toKey d (the (body_handle req))) of
              None \<Rightarrow> (Response 404 (Error ''User not found''), s1)
            | Some user \<Rightarrow>
                if \<not> enabled user then (Response 403 (Error ''User is disabled''), s1)
                else
                  let mfaCode = String_nat (randomInt req) in
                  (Response 204 StatusText,
                   s1\<lparr>MFA_CACHE :=
                        Cache_set MFA_CACHE_ttl (MFA_CACHE s1) (Date_now req) (handle user) mfaCode\<rparr>)))"

text \<open>\<^verbatim>\<open>router.post('/recover-step2')\<close>.\<close>

definition post_recover_step2 :: "deps \<Rightarrow> server \<Rightarrow> request \<Rightarrow> response \<times> server" where
  "post_recover_step2 d s req =
     (if \<not> truthy (body_handle req) \<or> \<not> truthy (body_code req) then
        (Response 400 (Error ''Missing required fields''), s)
      else
        case storage_getItem (storage s) (toKey d (the (body_handle req))) of
          None \<Rightarrow> (Response 404 (Error ''User not found''), s)
        | Some user \<Rightarrow>
            if \<not> enabled user then (Response 403 (Error ''User is disabled''), s)
            else
              let mfaCode = Cache_get (MFA_CACHE s) (Date_now req) (handle user) in
              if body_code req \<noteq> mfaCode then
                (case consume recoverLimiter (recover_buckets s) (Date_now req) (ip req) of
                   Inl RateLimiterRes \<Rightarrow>
                     (Response 429 (Error ''Too many attempts. Try again later or contact your admin.''), s)
                 | Inr bs \<Rightarrow>
                     (Response 403 (Error ''Incorrect code''), s\<lparr>recover_buckets := bs\<rparr>))
              else
                let stored =
                      (if truthy (body_newPassword req) then
                         (case getPasswordHash d (body_newPassword req) (getPasswordSalt req) of
                            None \<Rightarrow> None
                          | Some h \<Rightarrow> Some (user\<lparr>password := h, salt := getPasswordSalt req\<rparr>))
                       else Some (user\<lparr>password := [], salt := []\<rparr>))
                in
                (case stored of
                  None \<Rightarrow> (Response 500 StatusText, s)
                | Some user' \<Rightarrow>
                    (Response 204 StatusText,
                     s\<lparr>storage := storage_setItem (storage s) (toKey d (handle user')) user',
                       recover_buckets := limiter_delete (recover_buckets s) (ip req),
                       MFA_CACHE := Cache_remove (MFA_CACHE s) (handle user')\<rparr>)))"

text \<open>
  \<^verbatim>\<open>router.post('/create')\<close>. The data directories it creates afterwards are not part of the
  state modelled here.
\<close>

definition post_create :: "deps \<Rightarrow> server \<Rightarrow> request \<Rightarrow> response \<times> server" where
  "post_create d s req =
     (if \<not> truthy (body_handle req) \<or> \<not> truthy (body_name req) then
        (Response 400 (Error ''Missing required fields''), s)
      else
        let handles = getAllUserHandles d (storage s);
            isFirstUser = (length handles = 0);
            h = slug d (the (body_handle req))
        in
        if h = [] then (Response 400 (Error ''Invalid handle''), s)
        else if h \<in> set handles then (Response 409 (Error ''User already exists''), s)
        else
          let salt' = getPasswordSalt req;
              password' =
                (if truthy (body_password req)
                 then getPasswordHash d (body_password req) salt'
                 else Some [])
          in
          case password' of
            None \<Rightarrow> (Response 500 StatusText, s)
          | Some pw \<Rightarrow>
              let newUser =
                    \<lparr>handle = h,
                     name = the (body_name req),
                     created = Date_now req,
                     password = pw,
                     salt = salt',
                     admin = isFirstUser,
                     enabled = True\<rparr>
              in (Response 200 (Handle (handle newUser)),
                  s\<lparr>storage := storage_setItem (storage s) (toKey d h) newUser\<rparr>))"

section \<open>Administrative endpoints\<close>

text \<open>
  \<^verbatim>\<open>router.post('/disable')\<close>, \<^verbatim>\<open>'/enable'\<close>, \<^verbatim>\<open>'/promote'\<close>, \<^verbatim>\<open>'/demote'\<close> and \<^verbatim>\<open>'/delete'\<close> of
  \<^verbatim>\<open>users-admin.js\<close>, as they run once \<^verbatim>\<open>requireAdminMiddleware\<close> has let the caller
  through.
\<close>

definition post_disable :: "deps \<Rightarrow> server \<Rightarrow> request \<Rightarrow> response \<times> server" where
  "post_disable d s req =
     (if \<not> truthy (body_handle req) then
        (Response 400 (Error ''Missing required fields''), s)
      else if the (body_handle req) = user_profile_handle req then
        (Response 400 (Error ''Cannot disable yourself''), s)
      else
        case storage_getItem (storage s) (toKey d (the (body_handle req))) of
          None \<Rightarrow> (Response 404 (Error ''User not found''), s)
        | Some user \<Rightarrow>
            (Response 204 StatusText,
             s\<lparr>storage := storage_setItem (storage s) (toKey d (the (body_handle req)))
                            (user\<lparr>enabled := False\<rparr>)\<rparr>))"

definition post_enable :: "deps \<Rightarrow> server \<Rightarrow> request \<Rightarrow> response \<times> server" where
  "post_enable d s req =
     (if \<not> truthy (body_handle req) then
        (Response 400 (Error ''Missing required fields''), s)
      else
        case storage_getItem (storage s) (toKey d (the (body_handle req))) of
          None \<Rightarrow> (Response 404 (Error ''User not found''), s)
        | Some user \<Rightarrow>
            (Response 204 StatusText,
             s\<lparr>storage := storage_setItem (storage s) (toKey d (the (body_handle req)))
                            (user\<lparr>enabled := True\<rparr>)\<rparr>))"

definition post_promote :: "deps \<Rightarrow> server \<Rightarrow> request \<Rightarrow> response \<times> server" where
  "post_promote d s req =
     (if \<not> truthy (body_handle req) then
        (Response 400 (Error ''Missing required fields''), s)
      else
        case storage_getItem (storage s) (toKey d (the (body_handle req))) of
          None \<Rightarrow> (Response 404 (Error ''User not found''), s)
        | Some user \<Rightarrow>
            (Response 204 StatusText,
             s\<lparr>storage := storage_setItem (storage s) (toKey d (the (body_handle req)))
                            (user\<lparr>admin := True\<rparr>)\<rparr>))"

definition post_demote :: "deps \<Rightarrow> server \<Rightarrow> request \<Rightarrow> response \<times> server" where
  "post_demote d s req =
     (if \<not> truthy (body_handle req) then
        (Response 400 (Error ''Missing required fields''), s)
      else if the (body_handle req) = user_profile_handle req then
        (Response 400 (Error ''Cannot demote yourself''), s)
      else
        case storage_getItem (storage s) (toKey d (the (body_handle req))) of
          None \<Rightarrow> (Response 404 (Error ''User not found''), s)
        | Some user \<Rightarrow>
            (Response 204 StatusText,
             s\<lparr>storage := storage_setItem (storage s) (toKey d (the (body_handle req)))
                            (user\<lparr>admin := False\<rparr>)\<rparr>))"

definition post_delete :: "deps \<Rightarrow> server \<Rightarrow> request \<Rightarrow> response \<times> server" where
  "post_delete d s req =
     (if \<not> truthy (body_handle req) then
        (Response 400 (Error ''Missing required fields''), s)
      else if the (body_handle req) = user_profile_handle req then
        (Response 400 (Error ''Cannot delete yourself''), s)
      else if the (body_handle req) = DEFAULT_USER_handle d then
        (Response 400
           (Error ''Sorry, but the default user cannot be deleted. It is required as a fallback.''), s)
      else
        let s1 = s\<lparr>storage := storage_removeItem (storage s) (toKey d (the (body_handle req)))\<rparr>
        in (Response 204 StatusText,
            if body_purge req
            then s1\<lparr>data_roots := data_roots s1 - {the (body_handle req)}\<rparr>
            else s1))"

section \<open>Notions used to state the properties\<close>

text \<open>
  The number of accounts in a store and the number of enabled ones: the distinct keys with
  the account prefix, and those among them whose record is enabled.
\<close>

definition account_count :: "deps \<Rightarrow> storage \<Rightarrow> nat" where
  "account_count d st = card (set (filter (prefix (KEY_PREFIX d)) (map fst st)))"

definition enabled_count :: "deps \<Rightarrow> storage \<Rightarrow> nat" where
  "enabled_count d st =
     card (set (filter
       (\<lambda>k. prefix (KEY_PREFIX d) k \<and>
            (case storage_getItem st k of None \<Rightarrow> False | Some u \<Rightarrow> enabled u))
       (map fst st)))"

text \<open>
  A run of login requests served one after the other: the responses in order and the state
  after the last one.
\<close>

fun login_seq :: "deps \<Rightarrow> server \<Rightarrow> request list \<Rightarrow> response list \<times> server" where
  "login_seq d s [] = ([], s)"
| "login_seq d s (r # rs) =
     (case post_login d s r of
        (resp, sess, s1) \<Rightarrow>
          (case login_seq d s1 rs of (resps, s2) \<Rightarrow> (resp # resps, s2)))"

section \<open>Example data\<close>

text \<open>
  A concrete instance on which the theorems are exercised: keys are \<^verbatim>\<open>user:\<close> followed by
  the handle, the hash of a password is the salt followed by the password, and the store
  holds an account with a password, a disabled account and a passwordless account.
\<close>

definition ex_deps :: deps where
  "ex_deps =
     \<lparr>KEY_PREFIX = ''user:'',
      toKey = (\<lambda>h. ''user:'' @ h),
      getPasswordHash = (\<lambda>p s. case p of None \<Rightarrow> None | Some pw \<Rightarrow> Some (s @ pw)),
      slug = (\<lambda>x. x),
      DEFAULT_USER_handle = ''default-user''\<rparr>"

definition ex_user :: "string \<Rightarrow> string \<Rightarrow> string \<Rightarrow> bool \<Rightarrow> User" where
  "ex_user h pw sa en =
     \<lparr>handle = h, name = h, created = 0, password = pw, salt = sa, admin = False, enabled = en\<rparr>"

definition ex_server :: server where
  "ex_server =
     \<lparr>storage =
        [(''user:alice'', ex_user ''alice'' ''pepperwonderland'' ''pepper'' True),
         (''user:bob'', ex_user ''bob'' [] [] False),
         (''user:guest'', ex_user ''guest'' [] [] True)],
      login_buckets = Map.empty,
      recover_buckets = Map.empty,
      MFA_CACHE = Map.empty,
      data_roots = {''alice'', ''bob'', ''guest''}\<rparr>"

definition ex_other_server :: server where
  "ex_other_server =
     \<lparr>storage =
        [(''user:carol'', ex_user ''carol'' [] [] True),
         (''settings'', ex_user ''none'' [] [] True),
         (''user:dave'', ex_user ''dave'' ''saltsecret'' ''salt'' True),
         (''user:erin'', ex_user ''erin'' ''nacl1234'' ''nacl'' False)],
      login_buckets = Map.empty,
      recover_buckets = Map.empty,
      MFA_CACHE = Map.empty,
      data_roots = {}\<rparr>"

definition ex_request :: "string \<Rightarrow> nat \<Rightarrow> request" where
  "ex_request h t =
     \<lparr>body_handle = Some h, body_password = Some ''guess'', body_code = None,
      body_newPassword = None, body_name = None, body_purge = False,
      ip = ''203.0.113.7'', session = Some None, user_profile_handle = ''root'',
      Date_now = t, randomInt = 1234, getPasswordSalt = ''pepper''\<rparr>"

definition ex_attempts :: "request list" where
  "ex_attempts =
     [ex_request ''ghost1'' 0, ex_request ''ghost2'' 1000, ex_request ''ghost3'' 2000,
      ex_request ''ghost4'' 3000, ex_request ''ghost5'' 4000]"

text \<open>
  Requests and states of a recovery on the example: a step-2 request with a code, the state
  after a challenge was issued to \<^verbatim>\<open>alice\<close> at time 0 (the code drawn is 1234), after a second
  challenge was issued at time 1000 with the code \<open>n\<close>, after the first challenge was verified,
  after \<open>n\<close> wrong guesses at the first challenge sent at time \<open>t\<close>, and a request that creates
  an account without a password.
\<close>

definition ex_verify :: "string \<Rightarrow> string \<Rightarrow> nat \<Rightarrow> request" where
  "ex_verify h c t = (ex_request h t)\<lparr>body_code := Some c\<rparr>"

definition ex_issued :: server where
  "ex_issued = snd (post_recover_step1 ex_deps ex_server (ex_request ''alice'' 0))"

definition ex_reissued :: "nat \<Rightarrow> server" where
  "ex_reissued n =
     snd (post_recover_step1 ex_deps ex_issued ((ex_request ''alice'' 1000)\<lparr>randomInt := n\<rparr>))"

definition ex_verified :: server where
  "ex_verified = snd (post_recover_step2 ex_deps ex_issued (ex_verify ''alice'' ''1234'' 1000))"

primrec ex_guessed :: "nat \<Rightarrow> nat \<Rightarrow> server" where
  "ex_guessed t 0 = ex_issued"
| "ex_guessed t (Suc n) =
     snd (post_recover_step2 ex_deps (ex_guessed t n) (ex_verify ''alice'' ''0000'' t))"

definition ex_create :: request where
  "ex_create = (ex_request ''zoe'' 5000)\<lparr>body_name := Some ''Zoe'', body_password := None\<rparr>"

text \<open>
  Further states of the example: the account of \<^verbatim>\<open>alice\<close> disabled, and deleted, by the
  administrator \<^verbatim>\<open>root\<close> at time 2000, after the challenge was issued; a step-2 request sent
  from a given address; the state after \<open>n\<close> wrong guesses at the challenge sent from a second
  address at time 1000; and the state after the first address has then verified the
  challenge at time 1500.
\<close>

definition ex_disabled :: server where
  "ex_disabled = snd (post_disable ex_deps ex_issued (ex_request ''alice'' 2000))"

definition ex_deleted :: server where
  "ex_deleted = snd (post_delete ex_deps ex_issued (ex_request ''alice'' 2000))"

definition ex_verify_from :: "string \<Rightarrow> string \<Rightarrow> string \<Rightarrow> nat \<Rightarrow> request" where
  "ex_verify_from a h c t = (ex_verify h c t)\<lparr>ip := a\<rparr>"

primrec ex_other_guessed :: "nat \<Rightarrow> server" where
  "ex_other_guessed 0 = ex_issued"
| "ex_other_guessed (Suc n) =
     snd (post_recover_step2 ex_deps (ex_other_guessed n)
            (ex_verify_from ''198.51.100.9'' ''alice'' ''0000'' 1000))"

definition ex_verified_late :: server where
  "ex_verified_late =
     snd (post_recover_step2 ex_deps (ex_other_guessed 5) (ex_verify ''alice'' ''1234'' 1500))"

section \<open>The login limiter throttles a flood of invalid handles\<close>









section \<open>The public list and count reveal two numbers only\<close>

lemma length_filter_keys:
  assumes "distinct (map fst st)"
  shows "length (filter (\<lambda>kv. p (fst kv)) st) = card (set (filter p (map fst st)))"
proof -
  have "length (filter (\<lambda>kv. p (fst kv)) st) = length (filter p (map fst st))"
    by (induction st) auto
  also have "\<dots> = card (set (filter p (map fst st)))"
    by (rule distinct_card [symmetric]) (rule distinct_filter [OF assms])
  finally show ?thesis .
qed

lemma length_values:
  "distinct (map fst st) \<Longrightarrow>
   length (storage_values (prefix (KEY_PREFIX d)) st) = account_count d st"
  by (simp add: storage_values_def account_count_def length_filter_keys)

lemma length_enabled_values:
  assumes "distinct (map fst st)"
  shows "length (filter enabled (storage_values (prefix (KEY_PREFIX d)) st)) = enabled_count d st"
proof -
  let ?q = "\<lambda>k. prefix (KEY_PREFIX d) k \<and>
             (case storage_getItem st k of None \<Rightarrow> False | Some u \<Rightarrow> enabled u)"
  have "length (filter enabled (storage_values (prefix (KEY_PREFIX d)) st)) =
        length (filter (\<lambda>kv. prefix (KEY_PREFIX d) (fst kv) \<and> enabled (snd kv)) st)"
    by (simp add: storage_values_def filter_map o_def conj_commute)
  also have "filter (\<lambda>kv. prefix (KEY_PREFIX d) (fst kv) \<and> enabled (snd kv)) st =
             filter (\<lambda>kv. ?q (fst kv)) st"
    using assms by (intro filter_cong refl) (auto simp: storage_getItem_def)
  also have "length \<dots> = card (set (filter ?q (map fst st)))"
    using assms by (rule length_filter_keys)
  finally show ?thesis by (simp add: enabled_count_def)
qed

text \<open>
  C10. On stores whose keys are distinct, as the keys of a key-value store are, the list and
  the count operations answer 200 with the number of accounts and the number of enabled
  accounts and nothing else; two stores that agree on these two numbers get the same
  answers, whatever handles, names, hashes and salts they hold.
\<close>

theorem list_and_count_reveal_counts_only:
  assumes "distinct (map fst (storage s))" and "distinct (map fst (storage s'))"
      and "account_count d (storage s) = account_count d (storage s')"
      and "enabled_count d (storage s) = enabled_count d (storage s')"
  shows "post_list d s =
           Response 200 (Counts (account_count d (storage s)) (enabled_count d (storage s))) \<and>
         get_count d s =
           Response 200 (Counts (account_count d (storage s)) (enabled_count d (storage s))) \<and>
         post_list d s' = post_list d s \<and> get_count d s' = get_count d s"
  using assms
  by (simp add: post_list_def get_count_def DISCREET_LOGIN_def Let_def
        length_values length_enabled_values)

text \<open>
  On the example: two stores with different accounts, three accounts each of which two are
  enabled (the second store also holds a key that is not an account).
\<close>

theorem list_and_count_reveal_counts_only_witness:
  "account_count ex_deps (storage ex_server) = 3 \<and>
   account_count ex_deps (storage ex_other_server) = 3 \<and>
   enabled_count ex_deps (storage ex_server) = 2 \<and>
   enabled_count ex_deps (storage ex_other_server) = 2 \<and>
   post_list ex_deps ex_server = Response 200 (Counts 3 2) \<and>
   get_count ex_deps ex_server = Response 200 (Counts 3 2) \<and>
   post_list ex_deps ex_other_server = post_list ex_deps ex_server \<and>
   get_count ex_deps ex_other_server = get_count ex_deps ex_server"
proof -
  have d1: "distinct (map fst (storage ex_server))"
    and d2: "distinct (map fst (storage ex_other_server))"
    by (simp_all add: ex_server_def ex_other_server_def)
  have a1: "account_count ex_deps (storage ex_server) = 3"
    and a2: "account_count ex_deps (storage ex_other_server) = 3"
    by (simp_all add: account_count_def ex_server_def ex_other_server_def ex_deps_def)
  have e1: "enabled_count ex_deps (storage ex_server) = 2"
    and e2: "enabled_count ex_deps (storage ex_other_server) = 2"
    by (simp_all add: enabled_count_def ex_server_def ex_other_server_def ex_deps_def
          ex_user_def storage_getItem_def)
  from list_and_count_reveal_counts_only [OF d1 d2, of ex_deps] a1 a2 e1 e2
  show ?thesis by simp
qed

section \<open>Login: passwordless accounts, unknown and disabled handles\<close>

text \<open>
  C3 as stated fails. On the example the passwordless account \<^verbatim>\<open>guest\<close> is enabled, yet a
  login for it from the address that has just failed five times is answered 429, and a
  login for it on a request without a session is answered 500.
\<close>

theorem passwordless_login_succeeds_counterexample:
  "map_option enabled (storage_getItem (storage ex_server) (toKey ex_deps ''guest'')) = Some True \<and>
   map_option password (storage_getItem (storage ex_server) (toKey ex_deps ''guest'')) = Some [] \<and>
   storage (snd (login_seq ex_deps ex_server ex_attempts)) = storage ex_server \<and>
   fst (post_login ex_deps (snd (login_seq ex_deps ex_server ex_attempts))
          (ex_request ''guest'' 5000)) =
     Response 429 (Error ''Too many attempts. Try again later or recover your password.'') \<and>
   fst (post_login ex_deps ex_server ((ex_request ''guest'' 0)\<lparr>session := None\<rparr>)) =
     Response 500 StatusText"
  by (simp add: ex_attempts_def ex_request_def ex_server_def ex_deps_def ex_user_def
        post_login_def consume_def remainingPoints_def consumedPoints_def window_end_def
        loginLimiter_def storage_getItem_def Let_def)

text \<open>
  C3, amended. An enabled account whose stored hash is empty: the answer to a login that
  names it does not depend on the password field, absent and empty included, since the
  password is never hashed or compared. The login succeeds with the account's handle, and
  binds the session to it, whenever the address has a point of login budget left and the
  request carries a session; it is answered 429 when the budget is exhausted and 500 when
  there is no session.
\<close>

theorem passwordless_login_succeeds:
  assumes "body_handle req = Some h" and "h \<noteq> []"
      and "storage_getItem (storage s) (toKey d h) = Some user"
      and "enabled user" and "password user = []"
  shows "fst (post_login d s (req\<lparr>body_password := pw\<rparr>)) =
           (if remainingPoints loginLimiter (login_buckets s) (Date_now req) (ip req) = 0
            then Response 429
                   (Error ''Too many attempts. Try again later or recover your password.'')
            else if session req = None then Response 500 StatusText
            else Response 200 (Handle (handle user))) \<and>
         (0 < remainingPoints loginLimiter (login_buckets s) (Date_now req) (ip req) \<and>
          session req \<noteq> None \<longrightarrow>
            fst (snd (post_login d s (req\<lparr>body_password := pw\<rparr>))) = Some (Some (handle user)))"
  using assms by (simp add: post_login_def consume_def Let_def)

text \<open>On the example: the passwordless account logs in without a password and with any.\<close>

theorem passwordless_login_succeeds_witness:
  "fst (post_login ex_deps ex_server ((ex_request ''guest'' 0)\<lparr>body_password := None\<rparr>)) =
     Response 200 (Handle ''guest'') \<and>
   fst (post_login ex_deps ex_server
          ((ex_request ''guest'' 0)\<lparr>body_password := Some ''anything''\<rparr>)) =
     Response 200 (Handle ''guest'')"
proof -
  have h: "body_handle (ex_request ''guest'' 0) = Some ''guest''" "''guest'' \<noteq> []"
    by (simp_all add: ex_request_def)
  have u: "storage_getItem (storage ex_server) (toKey ex_deps ''guest'') =
             Some (ex_user ''guest'' [] [] True)"
    by (simp add: storage_getItem_def ex_server_def ex_deps_def)
  have e: "enabled (ex_user ''guest'' [] [] True)" "password (ex_user ''guest'' [] [] True) = []"
    by (simp_all add: ex_user_def)
  have b: "remainingPoints loginLimiter (login_buckets ex_server)
             (Date_now (ex_request ''guest'' 0)) (ip (ex_request ''guest'' 0)) = 5"
    by (simp add: remainingPoints_def consumedPoints_def loginLimiter_def ex_server_def)
  have se: "session (ex_request ''guest'' 0) \<noteq> None"
    by (simp add: ex_request_def)
  from passwordless_login_succeeds [OF h u e, of None]
       passwordless_login_succeeds [OF h u e, of "Some ''anything''"] b se
  show ?thesis by (simp add: ex_user_def)
qed

text \<open>
  C4 as stated fails. On the example, a login for a handle that does not exist and a login
  for a disabled account are both answered 403, but with the messages
  \<^verbatim>\<open>Incorrect credentials\<close> and \<^verbatim>\<open>User is disabled\<close>: the caller can tell the two apart.
\<close>

theorem login_not_found_vs_disabled_counterexample:
  "storage_getItem (storage ex_server) (toKey ex_deps ''nobody'') = None \<and>
   map_option enabled (storage_getItem (storage ex_server) (toKey ex_deps ''bob'')) = Some False \<and>
   fst (post_login ex_deps ex_server (ex_request ''nobody'' 0)) =
     Response 403 (Error ''Incorrect credentials'') \<and>
   fst (post_login ex_deps ex_server (ex_request ''bob'' 0)) =
     Response 403 (Error ''User is disabled'') \<and>
   body (fst (post_login ex_deps ex_server (ex_request ''nobody'' 0))) \<noteq>
   body (fst (post_login ex_deps ex_server (ex_request ''bob'' 0)))"
  by (simp add: ex_server_def ex_deps_def ex_request_def ex_user_def post_login_def consume_def
        remainingPoints_def consumedPoints_def window_end_def loginLimiter_def
        storage_getItem_def Let_def)

text \<open>
  C4, amended. For a request with a non-empty handle and two stores, one without the
  account and one where it exists and is disabled, the login answers with the same status
  code, because the limiter is consulted before the store. When the address has login
  budget left the status is 403 in both cases, with the message \<^verbatim>\<open>Incorrect credentials\<close> for
  the unknown handle and \<^verbatim>\<open>User is disabled\<close> for the disabled account; when the budget is
  exhausted both get the same 429 response.
\<close>

theorem login_not_found_vs_disabled:
  assumes "truthy (body_handle req)"
      and "storage_getItem st1 (toKey d (the (body_handle req))) = None"
      and "storage_getItem st2 (toKey d (the (body_handle req))) = Some user"
      and "\<not> enabled user"
  shows "status (fst (post_login d (s\<lparr>storage := st1\<rparr>) req)) =
         status (fst (post_login d (s\<lparr>storage := st2\<rparr>) req)) \<and>
         fst (post_login d (s\<lparr>storage := st1\<rparr>) req) =
           (if 0 < remainingPoints loginLimiter (login_buckets s) (Date_now req) (ip req)
            then Response 403 (Error ''Incorrect credentials'')
            else Response 429
                   (Error ''Too many attempts. Try again later or recover your password.'')) \<and>
         fst (post_login d (s\<lparr>storage := st2\<rparr>) req) =
           (if 0 < remainingPoints loginLimiter (login_buckets s) (Date_now req) (ip req)
            then Response 403 (Error ''User is disabled'')
            else Response 429
                   (Error ''Too many attempts. Try again later or recover your password.''))"
  using assms by (simp add: post_login_def consume_def Let_def)

text \<open>
  On the example: the disabled account, against a store where it does not exist, from an
  address with budget left and, at time 5000, from the address of the five failed attempts.
\<close>

theorem login_not_found_vs_disabled_witness:
  "status (fst (post_login ex_deps ex_server (ex_request ''bob'' 0))) =
   status (fst (post_login ex_deps (ex_server\<lparr>storage := []\<rparr>) (ex_request ''bob'' 0))) \<and>
   fst (post_login ex_deps (ex_server\<lparr>storage := []\<rparr>) (ex_request ''bob'' 0)) =
     Response 403 (Error ''Incorrect credentials'') \<and>
   fst (post_login ex_deps ex_server (ex_request ''bob'' 0)) =
     Response 403 (Error ''User is disabled'') \<and>
   fst (post_login ex_deps ((snd (login_seq ex_deps ex_server ex_attempts))\<lparr>storage := []\<rparr>)
          (ex_request ''bob'' 5000)) =
     Response 429 (Error ''Too many attempts. Try again later or recover your password.'') \<and>
   fst (post_login ex_deps
          ((snd (login_seq ex_deps ex_server ex_attempts))\<lparr>storage := storage ex_server\<rparr>)
          (ex_request ''bob'' 5000)) =
     Response 429 (Error ''Too many attempts. Try again later or recover your password.'')"
proof -
  let ?s = "snd (login_seq ex_deps ex_server ex_attempts)"
  have h: "truthy (body_handle (ex_request ''bob'' 0))"
    by (simp add: ex_request_def)
  have n: "storage_getItem [] (toKey ex_deps (the (body_handle (ex_request ''bob'' 0)))) = None"
    by (simp add: storage_getItem_def)
  have u: "storage_getItem (storage ex_server)
             (toKey ex_deps (the (body_handle (ex_request ''bob'' 0)))) =
           Some (ex_user ''bob'' [] [] False)"
    by (simp add: storage_getItem_def ex_server_def ex_deps_def ex_request_def)
  have e: "\<not> enabled (ex_user ''bob'' [] [] False)"
    by (simp add: ex_user_def)
  have b: "0 < remainingPoints loginLimiter (login_buckets ex_server)
                 (Date_now (ex_request ''bob'' 0)) (ip (ex_request ''bob'' 0))"
    by (simp add: remainingPoints_def consumedPoints_def loginLimiter_def ex_server_def)
  have h': "truthy (body_handle (ex_request ''bob'' 5000))"
    and n': "storage_getItem [] (toKey ex_deps (the (body_handle (ex_request ''bob'' 5000)))) = None"
    and u': "storage_getItem (storage ex_server)
               (toKey ex_deps (the (body_handle (ex_request ''bob'' 5000)))) =
             Some (ex_user ''bob'' [] [] False)"
    by (simp_all add: storage_getItem_def ex_server_def ex_deps_def ex_request_def)
  have b': "remainingPoints loginLimiter (login_buckets ?s)
              (Date_now (ex_request ''bob'' 5000)) (ip (ex_request ''bob'' 5000)) = 0"
    by (simp add: ex_attempts_def ex_request_def ex_server_def ex_deps_def post_login_def
          consume_def remainingPoints_def consumedPoints_def window_end_def loginLimiter_def
          storage_getItem_def Let_def)
  from login_not_found_vs_disabled [OF h n u e, of ex_server]
       login_not_found_vs_disabled [OF h' n' u' e, of ?s] b b'
  show ?thesis by simp
qed

section \<open>Recovery codes as decimal strings\<close>

lemma digit_char_inj:
  assumes "a < 10" and "b < 10" and "digit_char a = digit_char b"
  shows "a = b"
proof -
  from assms(1) have "a \<in> {0, 1, 2, 3, 4, 5, 6, 7, 8, 9}" by auto
  moreover from assms(2) have "b \<in> {0, 1, 2, 3, 4, 5, 6, 7, 8, 9}" by auto
  ultimately show ?thesis using assms(3)
    by (auto simp: digit_char_def)
qed

lemma String_nat_not_Nil: "String_nat n \<noteq> []"
  by (subst String_nat.simps) simp

text \<open>Two numbers with the same decimal string are equal.\<close>

lemma String_nat_inj: "String_nat n = String_nat m \<Longrightarrow> n = m"
proof (induction n arbitrary: m rule: String_nat.induct)
  case (1 n)
  show ?case
  proof (cases "n < 10")
    case True
    show ?thesis
    proof (cases "m < 10")
      case mlt: True
      from "1.prems" True mlt have "digit_char n = digit_char m"
        by (simp add: String_nat.simps [of n] String_nat.simps [of m])
      with True mlt show ?thesis by (rule digit_char_inj)
    next
      case False
      with "1.prems" True String_nat_not_Nil [of "m div 10"] show ?thesis
        by (auto simp: String_nat.simps [of n] String_nat.simps [of m])
    qed
  next
    case False
    show ?thesis
    proof (cases "m < 10")
      case True
      with "1.prems" False String_nat_not_Nil [of "n div 10"] show ?thesis
        by (auto simp: String_nat.simps [of n] String_nat.simps [of m])
    next
      case mge: False
      from "1.prems" False mge
      have a: "String_nat (n div 10) = String_nat (m div 10)"
        and b: "digit_char (n mod 10) = digit_char (m mod 10)"
        by (simp_all add: String_nat.simps [of n] String_nat.simps [of m])
      from "1.IH" [OF False a] have "n div 10 = m div 10" .
      moreover from b have "n mod 10 = m mod 10"
        by (intro digit_char_inj) simp_all
      ultimately show ?thesis
        by (metis div_mult_mod_eq)
    qed
  qed
qed

lemma String_nat_1234: "String_nat 1234 = ''1234''"
  by (simp add: String_nat.simps digit_char_def)

lemma String_nat_5678: "String_nat 5678 = ''5678''"
  by (simp add: String_nat.simps digit_char_def)

section \<open>The recovery limiter, the store and the two recovery steps\<close>

lemma consume_recover_cases:
  "consume recoverLimiter bs now key =
     (if 5 \<le> consumedPoints bs now key then Inl RateLimiterRes
      else Inr (bs(key \<mapsto> (consumedPoints bs now key + 1, window_end recoverLimiter bs now key))))"
  by (simp add: consume_def remainingPoints_def recoverLimiter_def)

lemma remaining_recover:
  "remainingPoints recoverLimiter bs now key = 5 - consumedPoints bs now key"
  by (simp add: remainingPoints_def recoverLimiter_def)

lemma consumedPoints_upd:
  "consumedPoints (bs(key \<mapsto> (c, W))) now key = (if now < W then c else 0)"
  by (simp add: consumedPoints_def)

lemma now_before_window_end_recover: "now < window_end recoverLimiter bs now key"
  by (auto simp: window_end_def recoverLimiter_def split: option.splits)

lemma getItem_setItem:
  "storage_getItem (storage_setItem st k v) k' = (if k' = k then Some v else storage_getItem st k')"
  by (simp add: storage_getItem_def storage_setItem_def update_conv')

text \<open>
  Step 2 on a request that reaches the comparison with a code other than the cached one:
  with budget left the point is taken and the answer is 403; without, the answer is 429 and
  nothing changes.
\<close>

lemma recover_step2_mismatch_charged:
  assumes "body_handle req = Some h" and "h \<noteq> []"
      and "body_code req = Some c" and "c \<noteq> []"
      and "storage_getItem (storage s) (toKey d h) = Some user" and "enabled user"
      and "Cache_get (MFA_CACHE s) (Date_now req) (handle user) \<noteq> Some c"
      and "0 < remainingPoints recoverLimiter (recover_buckets s) (Date_now req) (ip req)"
  shows "post_recover_step2 d s req =
           (Response 403 (Error ''Incorrect code''),
            s\<lparr>recover_buckets := (recover_buckets s)(ip req \<mapsto>
                 (consumedPoints (recover_buckets s) (Date_now req) (ip req) + 1,
                  window_end recoverLimiter (recover_buckets s) (Date_now req) (ip req)))\<rparr>)"
proof -
  have "Some c \<noteq> Cache_get (MFA_CACHE s) (Date_now req) (handle user)"
    using assms(7) by auto
  with assms show ?thesis
    by (simp add: post_recover_step2_def consume_recover_cases remaining_recover Let_def)
qed

lemma recover_step2_mismatch_limited:
  assumes "body_handle req = Some h" and "h \<noteq> []"
      and "body_code req = Some c" and "c \<noteq> []"
      and "storage_getItem (storage s) (toKey d h) = Some user" and "enabled user"
      and "Cache_get (MFA_CACHE s) (Date_now req) (handle user) \<noteq> Some c"
      and "remainingPoints recoverLimiter (recover_buckets s) (Date_now req) (ip req) = 0"
  shows "post_recover_step2 d s req =
           (Response 429 (Error ''Too many attempts. Try again later or contact your admin.''), s)"
proof -
  have "Some c \<noteq> Cache_get (MFA_CACHE s) (Date_now req) (handle user)"
    using assms(7) by auto
  with assms show ?thesis
    by (simp add: post_recover_step2_def consume_def Let_def)
qed

lemma recover_step2_mismatch:
  assumes "body_handle req = Some h" and "h \<noteq> []"
      and "body_code req = Some c" and "c \<noteq> []"
      and "storage_getItem (storage s) (toKey d h) = Some user" and "enabled user"
      and "Cache_get (MFA_CACHE s) (Date_now req) (handle user) \<noteq> Some c"
  shows "post_recover_step2 d s req =
           (if 0 < remainingPoints recoverLimiter (recover_buckets s) (Date_now req) (ip req)
            then (Response 403 (Error ''Incorrect code''),
                  s\<lparr>recover_buckets := (recover_buckets s)(ip req \<mapsto>
                       (consumedPoints (recover_buckets s) (Date_now req) (ip req) + 1,
                        window_end recoverLimiter (recover_buckets s) (Date_now req) (ip req)))\<rparr>)
            else (Response 429
                    (Error ''Too many attempts. Try again later or contact your admin.''), s))"
proof (cases "0 < remainingPoints recoverLimiter (recover_buckets s) (Date_now req) (ip req)")
  case True
  from recover_step2_mismatch_charged [OF assms True] True show ?thesis
    by simp
next
  case False
  then have "remainingPoints recoverLimiter (recover_buckets s) (Date_now req) (ip req) = 0"
    by simp
  from recover_step2_mismatch_limited [OF assms this] False show ?thesis
    by simp
qed

text \<open>The point that a charge takes is exactly one.\<close>

lemma recover_charge_one_point:
  assumes "0 < remainingPoints recoverLimiter bs now key"
  shows "remainingPoints recoverLimiter
           (bs(key \<mapsto> (consumedPoints bs now key + 1, window_end recoverLimiter bs now key)))
           now key + 1 =
         remainingPoints recoverLimiter bs now key"
  using assms by (simp add: remaining_recover consumedPoints_upd now_before_window_end_recover)

text \<open>
  The answers of step 2 before the comparison, and what every answer other than 204 leaves
  as it was.
\<close>

lemma recover_step2_unknown:
  assumes "truthy (body_handle req)" and "truthy (body_code req)"
      and "storage_getItem (storage s) (toKey d (the (body_handle req))) = None"
  shows "post_recover_step2 d s req = (Response 404 (Error ''User not found''), s)"
  using assms by (simp add: post_recover_step2_def)

lemma recover_step2_disabled:
  assumes "truthy (body_handle req)" and "truthy (body_code req)"
      and "storage_getItem (storage s) (toKey d (the (body_handle req))) = Some user"
      and "\<not> enabled user"
  shows "post_recover_step2 d s req = (Response 403 (Error ''User is disabled''), s)"
  using assms by (simp add: post_recover_step2_def)

lemma recover_step2_refused_keeps:
  assumes "post_recover_step2 d s req = (resp, s')" and "status resp \<noteq> 204"
  shows "storage s' = storage s" and "MFA_CACHE s' = MFA_CACHE s"
  using assms
  by (auto simp: post_recover_step2_def Let_def
           split: if_splits option.splits sum.splits exception.splits)

lemma recover_step2_status_204:
  assumes "post_recover_step2 d s req = (resp, s')" and "status resp = 204"
  shows "resp = Response 204 StatusText"
  using assms
  by (auto simp: post_recover_step2_def Let_def
           split: if_splits option.splits sum.splits exception.splits)

text \<open>What a step 1 answered 204 has done, and what a step 2 answered 204 has found and done.\<close>

lemma step1_issued:
  assumes "post_recover_step1 d s req = (Response 204 StatusText, s1)"
  shows "\<exists>h user. body_handle req = Some h \<and> h \<noteq> [] \<and>
           storage_getItem (storage s) (toKey d h) = Some user \<and> enabled user \<and>
           storage s1 = storage s \<and>
           MFA_CACHE s1 = (MFA_CACHE s)(handle user \<mapsto>
              (String_nat (randomInt req), Date_now req + MFA_CACHE_ttl))"
  using assms
  by (cases "body_handle req")
     (auto simp: post_recover_step1_def Let_def Cache_set_def
           split: if_splits sum.splits option.splits exception.splits)

lemma step1_charged:
  assumes "post_recover_step1 d s req = (Response 204 StatusText, s1)"
  shows "recover_buckets s1 = (recover_buckets s)(ip req \<mapsto>
           (consumedPoints (recover_buckets s) (Date_now req) (ip req) + 1,
            window_end recoverLimiter (recover_buckets s) (Date_now req) (ip req)))"
  using assms
  by (cases "body_handle req")
     (auto simp: post_recover_step1_def Let_def consume_recover_cases
           split: if_splits option.splits)

text \<open>
  A limiter window lasts as long as a challenge lives. When the window that the request
  for a challenge is charged to was opened no later than that request, as every window of
  a running server is, the address has its full budget again once the challenge has
  expired.
\<close>

lemma recover_budget_after_ttl:
  assumes "post_recover_step1 d s req = (Response 204 StatusText, s1)"
      and "window_end recoverLimiter (recover_buckets s) (Date_now req) (ip req) \<le>
             Date_now req + MFA_CACHE_ttl"
      and "Date_now req + MFA_CACHE_ttl \<le> t"
  shows "remainingPoints recoverLimiter (recover_buckets s1) t (ip req) = 5"
  using assms(2,3)
  by (simp add: step1_charged [OF assms(1)] remaining_recover consumedPoints_upd)

lemma step2_verified:
  assumes "post_recover_step2 d s req = (Response 204 StatusText, s1)"
  shows "\<exists>h c user user'. body_handle req = Some h \<and> h \<noteq> [] \<and>
           body_code req = Some c \<and> c \<noteq> [] \<and>
           storage_getItem (storage s) (toKey d h) = Some user \<and> enabled user \<and>
           Cache_get (MFA_CACHE s) (Date_now req) (handle user) = Some c \<and>
           handle user' = handle user \<and> enabled user' \<and>
           (\<not> truthy (body_newPassword req) \<longrightarrow> user' = user\<lparr>password := [], salt := []\<rparr>) \<and>
           s1 = s\<lparr>storage := storage_setItem (storage s) (toKey d (handle user)) user',
                  recover_buckets := limiter_delete (recover_buckets s) (ip req),
                  MFA_CACHE := Cache_remove (MFA_CACHE s) (handle user)\<rparr>"
proof -
  from assms obtain h c where h: "body_handle req = Some h" "h \<noteq> []"
    and c: "body_code req = Some c" "c \<noteq> []"
    by (cases "body_handle req"; cases "body_code req")
       (auto simp: post_recover_step2_def split: if_splits)
  from assms h c obtain user where u: "storage_getItem (storage s) (toKey d h) = Some user"
    by (cases "storage_getItem (storage s) (toKey d h)")
       (auto simp: post_recover_step2_def)
  from assms h c u have en: "enabled user"
    by (auto simp: post_recover_step2_def split: if_splits)
  from assms h c u en have m: "Cache_get (MFA_CACHE s) (Date_now req) (handle user) = Some c"
    by (auto simp: post_recover_step2_def Let_def split: if_splits sum.splits exception.splits)
  define user' where "user' =
    (if truthy (body_newPassword req)
     then user\<lparr>password := the (getPasswordHash d (body_newPassword req) (getPasswordSalt req)),
               salt := getPasswordSalt req\<rparr>
     else user\<lparr>password := [], salt := []\<rparr>)"
  have "handle user' = handle user" "enabled user'"
    "\<not> truthy (body_newPassword req) \<longrightarrow> user' = user\<lparr>password := [], salt := []\<rparr>"
    using en by (simp_all add: user'_def)
  moreover from assms h c u en m
  have "s1 = s\<lparr>storage := storage_setItem (storage s) (toKey d (handle user)) user',
                  recover_buckets := limiter_delete (recover_buckets s) (ip req),
                  MFA_CACHE := Cache_remove (MFA_CACHE s) (handle user)\<rparr>"
    by (auto simp: post_recover_step2_def Let_def user'_def split: option.splits if_splits)
  ultimately show ?thesis using h c u en m by blast
qed

text \<open>The recovery runs of the example, evaluated.\<close>

lemmas ex_eval = post_recover_step1_def post_recover_step2_def ex_verify_def ex_request_def
  ex_server_def ex_deps_def ex_user_def storage_getItem_def storage_setItem_def
  consume_def remainingPoints_def consumedPoints_def window_end_def recoverLimiter_def
  limiter_delete_def Cache_get_def Cache_set_def Cache_remove_def MFA_CACHE_ttl_def Let_def

lemma ex_step1:
  "post_recover_step1 ex_deps ex_server (ex_request ''alice'' 0) =
     (Response 204 StatusText, ex_issued)"
proof -
  have "fst (post_recover_step1 ex_deps ex_server (ex_request ''alice'' 0)) =
          Response 204 StatusText"
    by (simp add: ex_eval)
  then show ?thesis
    by (simp add: ex_issued_def prod_eq_iff)
qed

lemma ex_issued_fields:
  "storage ex_issued = storage ex_server"
  "MFA_CACHE ex_issued = [''alice'' \<mapsto> (''1234'', 300000)]"
  "recover_buckets ex_issued = [''203.0.113.7'' \<mapsto> (1, 300000)]"
  by (simp_all add: ex_issued_def String_nat_1234 ex_eval)

lemma ex_issued_alice:
  "storage_getItem (storage ex_issued) (toKey ex_deps ''alice'') =
     Some (ex_user ''alice'' ''pepperwonderland'' ''pepper'' True)"
  by (simp add: ex_issued_fields storage_getItem_def ex_server_def ex_deps_def)

lemma ex_step2:
  "post_recover_step2 ex_deps ex_issued (ex_verify ''alice'' ''1234'' 1000) =
     (Response 204 StatusText, ex_verified)"
proof -
  have "fst (post_recover_step2 ex_deps ex_issued (ex_verify ''alice'' ''1234'' 1000)) =
          Response 204 StatusText"
    by (simp add: ex_issued_fields ex_eval)
  then show ?thesis
    by (simp add: ex_verified_def prod_eq_iff)
qed

lemma ex_step1_again:
  "post_recover_step1 ex_deps ex_issued ((ex_request ''alice'' 1000)\<lparr>randomInt := n\<rparr>) =
     (Response 204 StatusText, ex_reissued n)"
proof -
  have "fst (post_recover_step1 ex_deps ex_issued
               ((ex_request ''alice'' 1000)\<lparr>randomInt := n\<rparr>)) = Response 204 StatusText"
    by (simp add: ex_issued_fields ex_eval)
  then show ?thesis
    by (simp add: ex_reissued_def prod_eq_iff)
qed

lemma ex_reissued_fields:
  "storage (ex_reissued n) = storage ex_server"
  "MFA_CACHE (ex_reissued n) = [''alice'' \<mapsto> (String_nat n, 301000)]"
  "recover_buckets (ex_reissued n) = [''203.0.113.7'' \<mapsto> (2, 300000)]"
  by (simp_all add: ex_reissued_def ex_issued_fields ex_eval numeral_2_eq_2)

lemma ex_guessed_fields:
  "n \<le> 4 \<Longrightarrow>
   storage (ex_guessed 1000 n) = storage ex_server \<and>
   MFA_CACHE (ex_guessed 1000 n) = [''alice'' \<mapsto> (''1234'', 300000)] \<and>
   recover_buckets (ex_guessed 1000 n) = [''203.0.113.7'' \<mapsto> (Suc n, 300000)]"
proof (induction n)
  case 0
  show ?case by (simp add: ex_issued_fields)
next
  case (Suc n)
  from Suc.prems have n: "n < 4" and n': "n \<le> 4"
    by simp_all
  from Suc.IH [OF n'] have f: "storage (ex_guessed 1000 n) = storage ex_server"
    "MFA_CACHE (ex_guessed 1000 n) = [''alice'' \<mapsto> (''1234'', 300000)]"
    "recover_buckets (ex_guessed 1000 n) = [''203.0.113.7'' \<mapsto> (Suc n, 300000)]"
    by blast+
  let ?req = "ex_verify ''alice'' ''0000'' 1000"
  have r: "body_handle ?req = Some ''alice''" "''alice'' \<noteq> []"
    "body_code ?req = Some ''0000''" "''0000'' \<noteq> []"
    "Date_now ?req = 1000" "ip ?req = ''203.0.113.7''"
    by (simp_all add: ex_verify_def ex_request_def)
  have u: "storage_getItem (storage (ex_guessed 1000 n)) (toKey ex_deps ''alice'') =
             Some (ex_user ''alice'' ''pepperwonderland'' ''pepper'' True)"
    by (simp add: f storage_getItem_def ex_server_def ex_deps_def)
  have e: "enabled (ex_user ''alice'' ''pepperwonderland'' ''pepper'' True)"
    by (simp add: ex_user_def)
  have m: "Cache_get (MFA_CACHE (ex_guessed 1000 n)) (Date_now ?req)
             (handle (ex_user ''alice'' ''pepperwonderland'' ''pepper'' True)) \<noteq> Some ''0000''"
    by (simp add: f r Cache_get_def ex_user_def)
  have b: "0 < remainingPoints recoverLimiter (recover_buckets (ex_guessed 1000 n))
                 (Date_now ?req) (ip ?req)"
    using n by (simp add: f r remaining_recover consumedPoints_def)
  show ?case
    by (simp add: recover_step2_mismatch_charged [OF r(1-4) u e m b] f r consumedPoints_def
          window_end_def)
qed

lemma ex_late_guessed_fields:
  "1 \<le> n \<Longrightarrow> n \<le> 5 \<Longrightarrow>
   storage (ex_guessed 300001 n) = storage ex_server \<and>
   MFA_CACHE (ex_guessed 300001 n) = [''alice'' \<mapsto> (''1234'', 300000)] \<and>
   recover_buckets (ex_guessed 300001 n) = [''203.0.113.7'' \<mapsto> (n, 600001)]"
proof (induction n)
  case 0
  then show ?case by simp
next
  case (Suc n)
  show ?case
  proof (cases "n = 0")
    case True
    then show ?thesis
      by (simp add: ex_issued_fields ex_eval)
  next
    case False
    with Suc.prems have n: "n < 5" and n': "1 \<le> n" "n \<le> 5"
      by simp_all
    from Suc.IH [OF n'] have f: "storage (ex_guessed 300001 n) = storage ex_server"
      "MFA_CACHE (ex_guessed 300001 n) = [''alice'' \<mapsto> (''1234'', 300000)]"
      "recover_buckets (ex_guessed 300001 n) = [''203.0.113.7'' \<mapsto> (n, 600001)]"
      by blast+
    let ?req = "ex_verify ''alice'' ''0000'' 300001"
    have r: "body_handle ?req = Some ''alice''" "''alice'' \<noteq> []"
      "body_code ?req = Some ''0000''" "''0000'' \<noteq> []"
      "Date_now ?req = 300001" "ip ?req = ''203.0.113.7''"
      by (simp_all add: ex_verify_def ex_request_def)
    have u: "storage_getItem (storage (ex_guessed 300001 n)) (toKey ex_deps ''alice'') =
               Some (ex_user ''alice'' ''pepperwonderland'' ''pepper'' True)"
      by (simp add: f storage_getItem_def ex_server_def ex_deps_def)
    have e: "enabled (ex_user ''alice'' ''pepperwonderland'' ''pepper'' True)"
      by (simp add: ex_user_def)
    have m: "Cache_get (MFA_CACHE (ex_guessed 300001 n)) (Date_now ?req)
               (handle (ex_user ''alice'' ''pepperwonderland'' ''pepper'' True)) \<noteq> Some ''0000''"
      by (simp add: f r Cache_get_def ex_user_def)
    have b: "0 < remainingPoints recoverLimiter (recover_buckets (ex_guessed 300001 n))
                   (Date_now ?req) (ip ?req)"
      using n by (simp add: f r remaining_recover consumedPoints_def)
    show ?thesis
      by (simp add: recover_step2_mismatch_charged [OF r(1-4) u e m b] f r consumedPoints_def
            window_end_def)
  qed
qed

lemma ex_disabled_fields:
  "storage_getItem (storage ex_disabled) (toKey ex_deps ''alice'') =
     Some (ex_user ''alice'' ''pepperwonderland'' ''pepper'' False)"
  "MFA_CACHE ex_disabled = [''alice'' \<mapsto> (''1234'', 300000)]"
  "recover_buckets ex_disabled = [''203.0.113.7'' \<mapsto> (1, 300000)]"
  by (simp_all add: ex_disabled_def post_disable_def ex_issued_fields ex_request_def ex_server_def
        ex_deps_def ex_user_def storage_getItem_def storage_setItem_def)

lemma ex_deleted_fields:
  "storage_getItem (storage ex_deleted) (toKey ex_deps ''alice'') = None"
  "MFA_CACHE ex_deleted = [''alice'' \<mapsto> (''1234'', 300000)]"
  "recover_buckets ex_deleted = [''203.0.113.7'' \<mapsto> (1, 300000)]"
  by (simp_all add: ex_deleted_def post_delete_def ex_issued_fields ex_request_def ex_server_def
        ex_deps_def ex_user_def storage_getItem_def storage_removeItem_def Let_def)

lemma ex_other_guessed_fields:
  "1 \<le> n \<Longrightarrow> n \<le> 5 \<Longrightarrow>
   storage (ex_other_guessed n) = storage ex_server \<and>
   MFA_CACHE (ex_other_guessed n) = [''alice'' \<mapsto> (''1234'', 300000)] \<and>
   recover_buckets (ex_other_guessed n) =
     [''203.0.113.7'' \<mapsto> (1, 300000), ''198.51.100.9'' \<mapsto> (n, 301000)]"
proof (induction n)
  case 0
  then show ?case by simp
next
  case (Suc n)
  show ?case
  proof (cases "n = 0")
    case True
    then show ?thesis
      by (auto simp add: ex_issued_fields ex_verify_from_def ex_eval fun_eq_iff)
  next
    case False
    with Suc.prems have n: "n < 5" and n': "1 \<le> n" "n \<le> 5"
      by simp_all
    from Suc.IH [OF n'] have f: "storage (ex_other_guessed n) = storage ex_server"
      "MFA_CACHE (ex_other_guessed n) = [''alice'' \<mapsto> (''1234'', 300000)]"
      "recover_buckets (ex_other_guessed n) =
         [''203.0.113.7'' \<mapsto> (1, 300000), ''198.51.100.9'' \<mapsto> (n, 301000)]"
      by blast+
    let ?req = "ex_verify_from ''198.51.100.9'' ''alice'' ''0000'' 1000"
    have r: "body_handle ?req = Some ''alice''" "''alice'' \<noteq> []"
      "body_code ?req = Some ''0000''" "''0000'' \<noteq> []"
      "Date_now ?req = 1000" "ip ?req = ''198.51.100.9''"
      by (simp_all add: ex_verify_from_def ex_verify_def ex_request_def)
    have u: "storage_getItem (storage (ex_other_guessed n)) (toKey ex_deps ''alice'') =
               Some (ex_user ''alice'' ''pepperwonderland'' ''pepper'' True)"
      by (simp add: f storage_getItem_def ex_server_def ex_deps_def)
    have e: "enabled (ex_user ''alice'' ''pepperwonderland'' ''pepper'' True)"
      by (simp add: ex_user_def)
    have m: "Cache_get (MFA_CACHE (ex_other_guessed n)) (Date_now ?req)
               (handle (ex_user ''alice'' ''pepperwonderland'' ''pepper'' True)) \<noteq> Some ''0000''"
      by (simp add: f r Cache_get_def ex_user_def)
    have b: "0 < remainingPoints recoverLimiter (recover_buckets (ex_other_guessed n))
                   (Date_now ?req) (ip ?req)"
      using n by (simp add: f r remaining_recover consumedPoints_def)
    show ?thesis
      by (auto simp add: recover_step2_mismatch_charged [OF r(1-4) u e m b] f r consumedPoints_def
            window_end_def fun_eq_iff)
  qed
qed

lemma ex_step2_late:
  "post_recover_step2 ex_deps (ex_other_guessed 5) (ex_verify ''alice'' ''1234'' 1500) =
     (Response 204 StatusText, ex_verified_late)"
proof -
  have f: "storage (ex_other_guessed 5) = storage ex_server"
    "MFA_CACHE (ex_other_guessed 5) = [''alice'' \<mapsto> (''1234'', 300000)]"
    using ex_other_guessed_fields [of 5] by simp_all
  have "fst (post_recover_step2 ex_deps (ex_other_guessed 5) (ex_verify ''alice'' ''1234'' 1500)) =
          Response 204 StatusText"
    by (simp add: f ex_eval)
  then show ?thesis
    by (simp add: ex_verified_late_def prod_eq_iff)
qed

lemma ex_verified_late_budget:
  "remainingPoints recoverLimiter (recover_buckets ex_verified_late) 2000 ''198.51.100.9'' = 0"
proof -
  have f: "storage (ex_other_guessed 5) = storage ex_server"
    "MFA_CACHE (ex_other_guessed 5) = [''alice'' \<mapsto> (''1234'', 300000)]"
    "recover_buckets (ex_other_guessed 5) =
       [''203.0.113.7'' \<mapsto> (1, 300000), ''198.51.100.9'' \<mapsto> (5, 301000)]"
    using ex_other_guessed_fields [of 5] by simp_all
  show ?thesis
    by (simp add: ex_verified_late_def f ex_eval)
qed

section \<open>Recovery step 2 with a wrong code\<close>

text \<open>
  C2 as stated fails. On the example a challenge with the code 1234 is outstanding for
  \<^verbatim>\<open>alice\<close>. Once the address has used its five recovery points (the request for the challenge
  and four wrong guesses), one more step 2 with the code 0000, which differs from the cached
  code, is answered 429 and not 403, and takes no point. And a step 2 with the code 0000 for a
  handle without an account, for which no challenge is cached, or for the disabled account
  \<^verbatim>\<open>bob\<close>, is answered 404, or 403 \<^verbatim>\<open>User is disabled\<close>, and takes no point either.
\<close>

theorem recover_step2_bad_code_counterexample:
  "Cache_get (MFA_CACHE (ex_guessed 1000 4)) 1000 ''alice'' = Some ''1234'' \<and>
   body_code (ex_verify ''alice'' ''0000'' 1000) = Some ''0000'' \<and>
   post_recover_step2 ex_deps (ex_guessed 1000 4) (ex_verify ''alice'' ''0000'' 1000) =
     (Response 429 (Error ''Too many attempts. Try again later or contact your admin.''),
      ex_guessed 1000 4) \<and>
   Cache_get (MFA_CACHE ex_issued) 1000 ''nobody'' = None \<and>
   post_recover_step2 ex_deps ex_issued (ex_verify ''nobody'' ''0000'' 1000) =
     (Response 404 (Error ''User not found''), ex_issued) \<and>
   Cache_get (MFA_CACHE ex_issued) 1000 ''bob'' = None \<and>
   post_recover_step2 ex_deps ex_issued (ex_verify ''bob'' ''0000'' 1000) =
     (Response 403 (Error ''User is disabled''), ex_issued)"
proof -
  have f: "storage (ex_guessed 1000 4) = storage ex_server"
    "MFA_CACHE (ex_guessed 1000 4) = [''alice'' \<mapsto> (''1234'', 300000)]"
    "recover_buckets (ex_guessed 1000 4) = [''203.0.113.7'' \<mapsto> (5, 300000)]"
    using ex_guessed_fields [of 4] by simp_all
  have "Cache_get (MFA_CACHE (ex_guessed 1000 4)) 1000 ''alice'' = Some ''1234'' \<and>
        body_code (ex_verify ''alice'' ''0000'' 1000) = Some ''0000'' \<and>
        post_recover_step2 ex_deps (ex_guessed 1000 4) (ex_verify ''alice'' ''0000'' 1000) =
          (Response 429 (Error ''Too many attempts. Try again later or contact your admin.''),
           ex_guessed 1000 4)"
    by (simp add: f post_recover_step2_def ex_verify_def ex_request_def ex_server_def ex_deps_def
          ex_user_def storage_getItem_def consume_def remainingPoints_def consumedPoints_def
          recoverLimiter_def Cache_get_def Let_def)
  moreover have "Cache_get (MFA_CACHE ex_issued) 1000 ''nobody'' = None"
    and "Cache_get (MFA_CACHE ex_issued) 1000 ''bob'' = None"
    by (simp_all add: ex_issued_fields Cache_get_def)
  moreover have "post_recover_step2 ex_deps ex_issued (ex_verify ''nobody'' ''0000'' 1000) =
                   (Response 404 (Error ''User not found''), ex_issued)"
    by (simp add: ex_issued_fields post_recover_step2_def ex_verify_def ex_request_def
          ex_server_def ex_deps_def storage_getItem_def)
  moreover have "post_recover_step2 ex_deps ex_issued (ex_verify ''bob'' ''0000'' 1000) =
                   (Response 403 (Error ''User is disabled''), ex_issued)"
    by (simp add: ex_issued_fields post_recover_step2_def ex_verify_def ex_request_def
          ex_server_def ex_deps_def ex_user_def storage_getItem_def)
  ultimately show ?thesis by simp
qed

text \<open>
  C2, amended. Step 2 commits no partial state on failure: whatever the request, an answer
  other than 204 leaves the store and the cache as they were, and the answer is 204 only
  when the code of the request equals the live cached code of an existing, enabled account,
  so the stored credential is changed only when the code matched. A request that carries a
  handle and a code is answered 404 when the account does not exist and 403
  \<^verbatim>\<open>User is disabled\<close> when it is disabled, and then nothing changes and no point is taken.
  For an existing, enabled account and a code that differs from the cached code, or no live
  challenge: when the address has recovery budget left the answer is 403 \<^verbatim>\<open>Incorrect code\<close>,
  exactly one point is taken and nothing else changes; when the budget is exhausted the
  answer is 429 and nothing changes.
\<close>

theorem recover_step2_bad_code:
  assumes "post_recover_step2 d s req = (resp, s')"
  shows "(status resp \<noteq> 204 \<longrightarrow> storage s' = storage s \<and> MFA_CACHE s' = MFA_CACHE s) \<and>
         (status resp = 204 \<longrightarrow>
            (\<exists>h c user. body_handle req = Some h \<and> body_code req = Some c \<and>
               storage_getItem (storage s) (toKey d h) = Some user \<and> enabled user \<and>
               Cache_get (MFA_CACHE s) (Date_now req) (handle user) = Some c)) \<and>
         (truthy (body_handle req) \<and> truthy (body_code req) \<longrightarrow>
            (case storage_getItem (storage s) (toKey d (the (body_handle req))) of
               None \<Rightarrow> resp = Response 404 (Error ''User not found'') \<and> s' = s
             | Some user \<Rightarrow>
                 if \<not> enabled user
                 then resp = Response 403 (Error ''User is disabled'') \<and> s' = s
                 else Cache_get (MFA_CACHE s) (Date_now req) (handle user) \<noteq> body_code req \<longrightarrow>
                   (if 0 < remainingPoints recoverLimiter (recover_buckets s) (Date_now req) (ip req)
                    then resp = Response 403 (Error ''Incorrect code'') \<and>
                         s' = s\<lparr>recover_buckets := (recover_buckets s)(ip req \<mapsto>
                                 (consumedPoints (recover_buckets s) (Date_now req) (ip req) + 1,
                                  window_end recoverLimiter (recover_buckets s) (Date_now req)
                                    (ip req)))\<rparr> \<and>
                         remainingPoints recoverLimiter (recover_buckets s') (Date_now req)
                           (ip req) + 1 =
                         remainingPoints recoverLimiter (recover_buckets s) (Date_now req) (ip req)
                    else resp = Response 429
                                  (Error ''Too many attempts. Try again later or contact your admin.'') \<and>
                         s' = s)))"
proof (intro conjI impI)
  assume "status resp \<noteq> 204"
  from recover_step2_refused_keeps [OF assms this]
  show "storage s' = storage s" and "MFA_CACHE s' = MFA_CACHE s" .
next
  assume "status resp = 204"
  from recover_step2_status_204 [OF assms this] assms
  have "post_recover_step2 d s req = (Response 204 StatusText, s')"
    by simp
  from step2_verified [OF this]
  show "\<exists>h c user. body_handle req = Some h \<and> body_code req = Some c \<and>
          storage_getItem (storage s) (toKey d h) = Some user \<and> enabled user \<and>
          Cache_get (MFA_CACHE s) (Date_now req) (handle user) = Some c"
    by blast
next
  assume t: "truthy (body_handle req) \<and> truthy (body_code req)"
  then obtain h c where h: "body_handle req = Some h" "h \<noteq> []"
    and c: "body_code req = Some c" "c \<noteq> []"
    by (cases "body_handle req"; cases "body_code req") auto
  let ?found = "storage_getItem (storage s) (toKey d (the (body_handle req)))"
  let ?budget = "remainingPoints recoverLimiter (recover_buckets s) (Date_now req) (ip req)"
  show "case ?found of
          None \<Rightarrow> resp = Response 404 (Error ''User not found'') \<and> s' = s
        | Some user \<Rightarrow>
            if \<not> enabled user
            then resp = Response 403 (Error ''User is disabled'') \<and> s' = s
            else Cache_get (MFA_CACHE s) (Date_now req) (handle user) \<noteq> body_code req \<longrightarrow>
              (if 0 < ?budget
               then resp = Response 403 (Error ''Incorrect code'') \<and>
                    s' = s\<lparr>recover_buckets := (recover_buckets s)(ip req \<mapsto>
                            (consumedPoints (recover_buckets s) (Date_now req) (ip req) + 1,
                             window_end recoverLimiter (recover_buckets s) (Date_now req)
                               (ip req)))\<rparr> \<and>
                    remainingPoints recoverLimiter (recover_buckets s') (Date_now req)
                      (ip req) + 1 = ?budget
               else resp = Response 429
                             (Error ''Too many attempts. Try again later or contact your admin.'') \<and>
                    s' = s)"
  proof (cases ?found)
    case None
    from recover_step2_unknown [OF conjunct1 [OF t] conjunct2 [OF t] None] assms None
    show ?thesis by simp
  next
    case (Some user)
    show ?thesis
    proof (cases "enabled user")
      case False
      from recover_step2_disabled [OF conjunct1 [OF t] conjunct2 [OF t] Some False] assms Some False
      show ?thesis by simp
    next
      case True
      have u: "storage_getItem (storage s) (toKey d h) = Some user"
        using Some h(1) by simp
      show ?thesis
      proof (cases "Cache_get (MFA_CACHE s) (Date_now req) (handle user) = body_code req")
        case True
        with Some \<open>enabled user\<close> show ?thesis by simp
      next
        case False
        then have m: "Cache_get (MFA_CACHE s) (Date_now req) (handle user) \<noteq> Some c"
          using c(1) by simp
        note step = recover_step2_mismatch [OF h c u True m]
        show ?thesis
        proof (cases "0 < ?budget")
          case True
          with step assms have "resp = Response 403 (Error ''Incorrect code'')"
            and s': "s' = s\<lparr>recover_buckets := (recover_buckets s)(ip req \<mapsto>
                      (consumedPoints (recover_buckets s) (Date_now req) (ip req) + 1,
                       window_end recoverLimiter (recover_buckets s) (Date_now req) (ip req)))\<rparr>"
            by simp_all
          moreover have "remainingPoints recoverLimiter (recover_buckets s') (Date_now req)
                           (ip req) + 1 = ?budget"
            using recover_charge_one_point [OF True] by (simp add: s')
          ultimately show ?thesis
            using Some \<open>enabled user\<close> False True by simp
        next
          case nobudget: False
          with step assms have "resp = Response 429
                 (Error ''Too many attempts. Try again later or contact your admin.'')"
            and "s' = s"
            by simp_all
          then show ?thesis
            using Some \<open>enabled user\<close> False nobudget by simp
        qed
      qed
    qed
  qed
qed

text \<open>
  On the example: a wrong guess right after the challenge was issued (four points left, three
  afterwards), a wrong guess once the budget is used up, and a wrong guess for a handle
  without an account.
\<close>

theorem recover_step2_bad_code_witness:
  "fst (post_recover_step2 ex_deps ex_issued (ex_verify ''alice'' ''0000'' 1000)) =
     Response 403 (Error ''Incorrect code'') \<and>
   storage (snd (post_recover_step2 ex_deps ex_issued (ex_verify ''alice'' ''0000'' 1000))) =
     storage ex_issued \<and>
   MFA_CACHE (snd (post_recover_step2 ex_deps ex_issued (ex_verify ''alice'' ''0000'' 1000))) =
     MFA_CACHE ex_issued \<and>
   remainingPoints recoverLimiter (recover_buckets ex_issued) 1000 ''203.0.113.7'' = 4 \<and>
   remainingPoints recoverLimiter
     (recover_buckets (snd (post_recover_step2 ex_deps ex_issued (ex_verify ''alice'' ''0000'' 1000))))
     1000 ''203.0.113.7'' = 3 \<and>
   post_recover_step2 ex_deps (ex_guessed 1000 4) (ex_verify ''alice'' ''0000'' 1000) =
     (Response 429 (Error ''Too many attempts. Try again later or contact your admin.''),
      ex_guessed 1000 4) \<and>
   post_recover_step2 ex_deps ex_issued (ex_verify ''nobody'' ''0000'' 1000) =
     (Response 404 (Error ''User not found''), ex_issued)"
proof -
  let ?req = "ex_verify ''alice'' ''0000'' 1000"
  let ?alice = "ex_user ''alice'' ''pepperwonderland'' ''pepper'' True"
  have r: "truthy (body_handle (ex_verify h ''0000'' 1000)) = (h \<noteq> [])"
    "truthy (body_code (ex_verify h ''0000'' 1000))"
    "the (body_handle (ex_verify h ''0000'' 1000)) = h"
    "body_code (ex_verify h ''0000'' 1000) = Some ''0000''"
    "Date_now (ex_verify h ''0000'' 1000) = 1000"
    "ip (ex_verify h ''0000'' 1000) = ''203.0.113.7''" for h
    by (simp_all add: ex_verify_def ex_request_def)
  have e: "enabled ?alice" and ha: "handle ?alice = ''alice''"
    by (simp_all add: ex_user_def)
  have m: "Cache_get (MFA_CACHE ex_issued) 1000 ''alice'' = Some ''1234''"
    by (simp add: ex_issued_fields Cache_get_def)
  have b: "remainingPoints recoverLimiter (recover_buckets ex_issued) 1000 ''203.0.113.7'' = 4"
    by (simp add: remaining_recover consumedPoints_def ex_issued_fields)
  have w: "consumedPoints (recover_buckets ex_issued) 1000 ''203.0.113.7'' = 1"
    "window_end recoverLimiter (recover_buckets ex_issued) 1000 ''203.0.113.7'' = 300000"
    by (simp_all add: consumedPoints_def window_end_def ex_issued_fields)
  have f: "storage (ex_guessed 1000 4) = storage ex_server"
    "MFA_CACHE (ex_guessed 1000 4) = [''alice'' \<mapsto> (''1234'', 300000)]"
    "recover_buckets (ex_guessed 1000 4) = [''203.0.113.7'' \<mapsto> (5, 300000)]"
    using ex_guessed_fields [of 4] by simp_all
  have u4: "storage_getItem (storage (ex_guessed 1000 4)) (toKey ex_deps ''alice'') = Some ?alice"
    by (simp add: f storage_getItem_def ex_server_def ex_deps_def)
  have m4: "Cache_get (MFA_CACHE (ex_guessed 1000 4)) 1000 ''alice'' = Some ''1234''"
    by (simp add: f Cache_get_def)
  have b4: "remainingPoints recoverLimiter (recover_buckets (ex_guessed 1000 4)) 1000 ''203.0.113.7'' = 0"
    by (simp add: remaining_recover consumedPoints_def f)
  have n: "storage_getItem (storage ex_issued) (toKey ex_deps ''nobody'') = None"
    by (simp add: ex_issued_fields storage_getItem_def ex_server_def ex_deps_def)
  have first: "fst (post_recover_step2 ex_deps ex_issued ?req) =
                 Response 403 (Error ''Incorrect code'') \<and>
               storage (snd (post_recover_step2 ex_deps ex_issued ?req)) = storage ex_issued \<and>
               MFA_CACHE (snd (post_recover_step2 ex_deps ex_issued ?req)) = MFA_CACHE ex_issued \<and>
               remainingPoints recoverLimiter
                 (recover_buckets (snd (post_recover_step2 ex_deps ex_issued ?req)))
                 1000 ''203.0.113.7'' = 3"
    using recover_step2_bad_code [OF surjective_pairing, of ex_deps ex_issued ?req]
    by (simp add: r ex_issued_alice e ha m b w remaining_recover consumedPoints_upd)
  have last: "post_recover_step2 ex_deps (ex_guessed 1000 4) ?req =
                (Response 429 (Error ''Too many attempts. Try again later or contact your admin.''),
                 ex_guessed 1000 4)"
    using recover_step2_bad_code [OF surjective_pairing, of ex_deps "ex_guessed 1000 4" ?req]
    by (simp add: r u4 e ha m4 b4 prod_eq_iff)
  have none: "post_recover_step2 ex_deps ex_issued (ex_verify ''nobody'' ''0000'' 1000) =
                (Response 404 (Error ''User not found''), ex_issued)"
    using recover_step2_bad_code
            [OF surjective_pairing, of ex_deps ex_issued "ex_verify ''nobody'' ''0000'' 1000"]
    by (simp add: r n prod_eq_iff)
  from first last none b show ?thesis by simp
qed

section \<open>Expiry and single use of a recovery challenge\<close>

text \<open>
  C6 as stated fails. On the example the challenge with the code 1234 is issued to \<^verbatim>\<open>alice\<close>
  at time 0. When the address then sends five wrong guesses at time 300001, which use up the
  budget of a new limiter window, the issued code, sent at time 300002, is answered 429 and
  not 403. And when the administrator has disabled, or deleted, the account at time 2000,
  the issued code, sent at time 300000, is answered 403 \<^verbatim>\<open>User is disabled\<close>, or 404.
\<close>

theorem expired_challenge_rejected_counterexample:
  "fst (post_recover_step1 ex_deps ex_server (ex_request ''alice'' 0)) = Response 204 StatusText \<and>
   String_nat (randomInt (ex_request ''alice'' 0)) = ''1234'' \<and>
   MFA_CACHE (ex_guessed 300001 5) ''alice'' = Some (''1234'', 300000) \<and>
   fst (post_recover_step2 ex_deps (ex_guessed 300001 5) (ex_verify ''alice'' ''1234'' 300002)) =
     Response 429 (Error ''Too many attempts. Try again later or contact your admin.'') \<and>
   fst (post_disable ex_deps ex_issued (ex_request ''alice'' 2000)) = Response 204 StatusText \<and>
   fst (post_recover_step2 ex_deps ex_disabled (ex_verify ''alice'' ''1234'' 300000)) =
     Response 403 (Error ''User is disabled'') \<and>
   fst (post_delete ex_deps ex_issued (ex_request ''alice'' 2000)) = Response 204 StatusText \<and>
   fst (post_recover_step2 ex_deps ex_deleted (ex_verify ''alice'' ''1234'' 300000)) =
     Response 404 (Error ''User not found'')"
proof -
  have f: "storage (ex_guessed 300001 5) = storage ex_server"
    "MFA_CACHE (ex_guessed 300001 5) = [''alice'' \<mapsto> (''1234'', 300000)]"
    "recover_buckets (ex_guessed 300001 5) = [''203.0.113.7'' \<mapsto> (5, 600001)]"
    using ex_late_guessed_fields [of 5] by simp_all
  have "fst (post_recover_step2 ex_deps (ex_guessed 300001 5) (ex_verify ''alice'' ''1234'' 300002)) =
          Response 429 (Error ''Too many attempts. Try again later or contact your admin.'')"
    by (simp add: f post_recover_step2_def ex_verify_def ex_request_def ex_server_def ex_deps_def
          ex_user_def storage_getItem_def consume_def remainingPoints_def consumedPoints_def
          recoverLimiter_def Cache_get_def Let_def)
  then have late:
    "fst (post_recover_step1 ex_deps ex_server (ex_request ''alice'' 0)) = Response 204 StatusText \<and>
     String_nat (randomInt (ex_request ''alice'' 0)) = ''1234'' \<and>
     MFA_CACHE (ex_guessed 300001 5) ''alice'' = Some (''1234'', 300000) \<and>
     fst (post_recover_step2 ex_deps (ex_guessed 300001 5) (ex_verify ''alice'' ''1234'' 300002)) =
       Response 429 (Error ''Too many attempts. Try again later or contact your admin.'')"
    by (simp add: ex_step1 f) (simp add: ex_request_def String_nat_1234)
  have r: "truthy (body_handle (ex_verify ''alice'' ''1234'' 300000))"
    "truthy (body_code (ex_verify ''alice'' ''1234'' 300000))"
    "the (body_handle (ex_verify ''alice'' ''1234'' 300000)) = ''alice''"
    by (simp_all add: ex_verify_def ex_request_def)
  have "fst (post_disable ex_deps ex_issued (ex_request ''alice'' 2000)) = Response 204 StatusText"
    by (simp add: post_disable_def ex_issued_fields ex_request_def ex_server_def ex_deps_def
          storage_getItem_def)
  moreover have "fst (post_recover_step2 ex_deps ex_disabled (ex_verify ''alice'' ''1234'' 300000)) =
          Response 403 (Error ''User is disabled'')"
    by (simp add: post_recover_step2_def r ex_disabled_fields ex_user_def)
  moreover have "fst (post_delete ex_deps ex_issued (ex_request ''alice'' 2000)) =
          Response 204 StatusText"
    by (simp add: post_delete_def ex_request_def ex_deps_def Let_def)
  moreover have "fst (post_recover_step2 ex_deps ex_deleted (ex_verify ''alice'' ''1234'' 300000)) =
          Response 404 (Error ''User not found'')"
    by (simp add: post_recover_step2_def r ex_deleted_fields)
  ultimately show ?thesis using late by simp
qed

text \<open>
  C6, amended. A challenge with the code \<open>c\<close> issued at the time \<open>issued\<close> is the cache entry
  \<open>(c, issued + TTL)\<close> under the handle of the account, as step 1 stores it. A step 2 that
  supplies this very code 300000 ms (the TTL) or more after the issuance finds no live
  challenge and never verifies: the store and the cache stay as they were. When the account
  still exists and is enabled, the answer is 403 \<^verbatim>\<open>Incorrect code\<close>, with one recovery point
  taken and nothing else changed, when the address has recovery budget left, and 429, with
  nothing changed, when it has none. When the account has been deleted or disabled since the
  issuance, the answer is 404 or 403 \<^verbatim>\<open>User is disabled\<close> and nothing changes.
\<close>

theorem expired_challenge_rejected:
  assumes "body_handle req = Some h" and "h \<noteq> []"
      and "body_code req = Some c" and "c \<noteq> []"
      and "\<forall>user. storage_getItem (storage s) (toKey d h) = Some user \<longrightarrow>
             MFA_CACHE s (handle user) = Some (c, issued + MFA_CACHE_ttl)"
      and "issued + MFA_CACHE_ttl \<le> Date_now req"
  shows "post_recover_step2 d s req =
           (case storage_getItem (storage s) (toKey d h) of
              None \<Rightarrow> (Response 404 (Error ''User not found''), s)
            | Some user \<Rightarrow>
                if \<not> enabled user then (Response 403 (Error ''User is disabled''), s)
                else if 0 < remainingPoints recoverLimiter (recover_buckets s) (Date_now req) (ip req)
                then (Response 403 (Error ''Incorrect code''),
                      s\<lparr>recover_buckets := (recover_buckets s)(ip req \<mapsto>
                           (consumedPoints (recover_buckets s) (Date_now req) (ip req) + 1,
                            window_end recoverLimiter (recover_buckets s) (Date_now req) (ip req)))\<rparr>)
                else (Response 429
                        (Error ''Too many attempts. Try again later or contact your admin.''), s)) \<and>
         (\<forall>user. storage_getItem (storage s) (toKey d h) = Some user \<longrightarrow>
            Cache_get (MFA_CACHE s) (Date_now req) (handle user) = None) \<and>
         storage (snd (post_recover_step2 d s req)) = storage s \<and>
         MFA_CACHE (snd (post_recover_step2 d s req)) = MFA_CACHE s"
proof -
  have t: "truthy (body_handle req)" "truthy (body_code req)"
    using assms(1-4) by simp_all
  have miss: "Cache_get (MFA_CACHE s) (Date_now req) (handle user) = None"
    if "storage_getItem (storage s) (toKey d h) = Some user" for user
    using assms(5,6) that by (simp add: Cache_get_def)
  have step: "post_recover_step2 d s req =
           (case storage_getItem (storage s) (toKey d h) of
              None \<Rightarrow> (Response 404 (Error ''User not found''), s)
            | Some user \<Rightarrow>
                if \<not> enabled user then (Response 403 (Error ''User is disabled''), s)
                else if 0 < remainingPoints recoverLimiter (recover_buckets s) (Date_now req) (ip req)
                then (Response 403 (Error ''Incorrect code''),
                      s\<lparr>recover_buckets := (recover_buckets s)(ip req \<mapsto>
                           (consumedPoints (recover_buckets s) (Date_now req) (ip req) + 1,
                            window_end recoverLimiter (recover_buckets s) (Date_now req) (ip req)))\<rparr>)
                else (Response 429
                        (Error ''Too many attempts. Try again later or contact your admin.''), s))"
  proof (cases "storage_getItem (storage s) (toKey d h)")
    case None
    with recover_step2_unknown [OF t] assms(1) show ?thesis by simp
  next
    case (Some user)
    show ?thesis
    proof (cases "enabled user")
      case False
      with recover_step2_disabled [OF t, of s d user] Some assms(1) show ?thesis by simp
    next
      case True
      from miss [OF Some]
      have "Cache_get (MFA_CACHE s) (Date_now req) (handle user) \<noteq> Some c"
        by simp
      from recover_step2_mismatch [OF assms(1-4) Some True this] Some True
      show ?thesis by simp
    qed
  qed
  have "storage (snd (post_recover_step2 d s req)) = storage s \<and>
        MFA_CACHE (snd (post_recover_step2 d s req)) = MFA_CACHE s"
    unfolding step by (simp split: option.split)
  with step miss show ?thesis by blast
qed

text \<open>
  On the example: the challenge issued at time 0 still verifies at 299999 and is refused
  with 403 at 300000, where the point taken opens a new limiter window; after the five wrong
  guesses at 300001 it is refused with 429; and it is refused with 403 \<^verbatim>\<open>User is disabled\<close>
  once the account is disabled.
\<close>

theorem expired_challenge_rejected_witness:
  "fst (post_recover_step1 ex_deps ex_server (ex_request ''alice'' 0)) = Response 204 StatusText \<and>
   MFA_CACHE ex_issued ''alice'' = Some (''1234'', 0 + MFA_CACHE_ttl) \<and>
   fst (post_recover_step2 ex_deps ex_issued (ex_verify ''alice'' ''1234'' 299999)) =
     Response 204 StatusText \<and>
   post_recover_step2 ex_deps ex_issued (ex_verify ''alice'' ''1234'' 300000) =
     (Response 403 (Error ''Incorrect code''),
      ex_issued\<lparr>recover_buckets := [''203.0.113.7'' \<mapsto> (1, 600000)]\<rparr>) \<and>
   post_recover_step2 ex_deps (ex_guessed 300001 5) (ex_verify ''alice'' ''1234'' 300002) =
     (Response 429 (Error ''Too many attempts. Try again later or contact your admin.''),
      ex_guessed 300001 5) \<and>
   post_recover_step2 ex_deps ex_disabled (ex_verify ''alice'' ''1234'' 300000) =
     (Response 403 (Error ''User is disabled''), ex_disabled)"
proof -
  let ?alice = "ex_user ''alice'' ''pepperwonderland'' ''pepper'' True"
  let ?off = "ex_user ''alice'' ''pepperwonderland'' ''pepper'' False"
  have r: "body_handle (ex_verify ''alice'' ''1234'' t) = Some ''alice''" "''alice'' \<noteq> []"
    "body_code (ex_verify ''alice'' ''1234'' t) = Some ''1234''" "''1234'' \<noteq> []"
    "Date_now (ex_verify ''alice'' ''1234'' t) = t" "ip (ex_verify ''alice'' ''1234'' t) = ''203.0.113.7''"
    for t
    by (simp_all add: ex_verify_def ex_request_def)
  have e: "enabled ?alice" "\<not> enabled ?off" and ha: "handle ?alice = ''alice''" "handle ?off = ''alice''"
    by (simp_all add: ex_user_def)
  have c: "\<forall>user. storage_getItem (storage ex_issued) (toKey ex_deps ''alice'') = Some user \<longrightarrow>
             MFA_CACHE ex_issued (handle user) = Some (''1234'', 0 + MFA_CACHE_ttl)"
    by (simp add: ex_issued_alice ex_issued_fields(2) ha MFA_CACHE_ttl_def)
  have t: "0 + MFA_CACHE_ttl \<le> Date_now (ex_verify ''alice'' ''1234'' 300000)"
    by (simp add: r MFA_CACHE_ttl_def)
  have b: "0 < remainingPoints recoverLimiter (recover_buckets ex_issued) 300000 ''203.0.113.7''"
    by (simp add: remaining_recover consumedPoints_def ex_issued_fields)
  have w: "consumedPoints (recover_buckets ex_issued) 300000 ''203.0.113.7'' = 0"
    "window_end recoverLimiter (recover_buckets ex_issued) 300000 ''203.0.113.7'' = 600000"
    by (simp_all add: consumedPoints_def window_end_def recoverLimiter_def ex_issued_fields)
  have f: "storage (ex_guessed 300001 5) = storage ex_server"
    "MFA_CACHE (ex_guessed 300001 5) = [''alice'' \<mapsto> (''1234'', 300000)]"
    "recover_buckets (ex_guessed 300001 5) = [''203.0.113.7'' \<mapsto> (5, 600001)]"
    using ex_late_guessed_fields [of 5] by simp_all
  have u5: "storage_getItem (storage (ex_guessed 300001 5)) (toKey ex_deps ''alice'') = Some ?alice"
    by (simp add: f storage_getItem_def ex_server_def ex_deps_def)
  have c5: "\<forall>user. storage_getItem (storage (ex_guessed 300001 5)) (toKey ex_deps ''alice'') =
                     Some user \<longrightarrow>
              MFA_CACHE (ex_guessed 300001 5) (handle user) = Some (''1234'', 0 + MFA_CACHE_ttl)"
    by (simp add: u5 f(2) ha MFA_CACHE_ttl_def)
  have t5: "0 + MFA_CACHE_ttl \<le> Date_now (ex_verify ''alice'' ''1234'' 300002)"
    by (simp add: r MFA_CACHE_ttl_def)
  have b5: "remainingPoints recoverLimiter (recover_buckets (ex_guessed 300001 5)) 300002
              ''203.0.113.7'' = 0"
    by (simp add: remaining_recover consumedPoints_def f)
  have cd: "\<forall>user. storage_getItem (storage ex_disabled) (toKey ex_deps ''alice'') = Some user \<longrightarrow>
              MFA_CACHE ex_disabled (handle user) = Some (''1234'', 0 + MFA_CACHE_ttl)"
    by (simp add: ex_disabled_fields(1,2) ha MFA_CACHE_ttl_def)
  have live: "fst (post_recover_step2 ex_deps ex_issued (ex_verify ''alice'' ''1234'' 299999)) =
                Response 204 StatusText"
    by (simp add: ex_issued_fields ex_eval)
  have ci: "MFA_CACHE ex_issued ''alice'' = Some (''1234'', 0 + MFA_CACHE_ttl)"
    by (simp add: ex_issued_fields MFA_CACHE_ttl_def)
  from expired_challenge_rejected [OF r(1-4) c t]
       expired_challenge_rejected [OF r(1-4) c5 t5]
       expired_challenge_rejected [OF r(1-4) cd t] b b5 ex_step1 live ci
  show ?thesis
    by (simp add: r e w ex_issued_alice u5 ex_disabled_fields) (simp add: ex_issued_fields(3))
qed

text \<open>
  C7 as stated fails. On the example the challenge with the code 1234 is issued to \<^verbatim>\<open>alice\<close>;
  a second address sends five wrong guesses at time 1000 and so uses up its recovery
  budget; the first address verifies the challenge at time 1500. The same handle and code
  sent again at time 2000 from the second address are answered 429 and not 403.
\<close>

theorem challenge_single_use_counterexample:
  "post_recover_step2 ex_deps (ex_other_guessed 5) (ex_verify ''alice'' ''1234'' 1500) =
     (Response 204 StatusText, ex_verified_late) \<and>
   body_handle (ex_verify_from ''198.51.100.9'' ''alice'' ''1234'' 2000) =
     body_handle (ex_verify ''alice'' ''1234'' 1500) \<and>
   body_code (ex_verify_from ''198.51.100.9'' ''alice'' ''1234'' 2000) =
     body_code (ex_verify ''alice'' ''1234'' 1500) \<and>
   fst (post_recover_step2 ex_deps ex_verified_late
          (ex_verify_from ''198.51.100.9'' ''alice'' ''1234'' 2000)) =
     Response 429 (Error ''Too many attempts. Try again later or contact your admin.'')"
proof -
  have f: "storage (ex_other_guessed 5) = storage ex_server"
    "MFA_CACHE (ex_other_guessed 5) = [''alice'' \<mapsto> (''1234'', 300000)]"
    "recover_buckets (ex_other_guessed 5) =
       [''203.0.113.7'' \<mapsto> (1, 300000), ''198.51.100.9'' \<mapsto> (5, 301000)]"
    using ex_other_guessed_fields [of 5] by simp_all
  have "fst (post_recover_step2 ex_deps ex_verified_late
               (ex_verify_from ''198.51.100.9'' ''alice'' ''1234'' 2000)) =
          Response 429 (Error ''Too many attempts. Try again later or contact your admin.'')"
    by (simp add: ex_verified_late_def f ex_verify_from_def ex_eval)
  then show ?thesis
    by (simp add: ex_step2_late) (simp add: ex_verify_from_def ex_verify_def ex_request_def)
qed

text \<open>
  C7, amended. After a step 2 answered 204, the challenge of the account is gone from the
  cache and the recovery bucket of the address is reset. A second step 2 with the same
  handle and the same code, at any time, from any address and with any new password, never
  verifies and leaves the store and the cache as they were: it is answered 403
  \<^verbatim>\<open>Incorrect code\<close>, with one recovery point taken and nothing else changed, when its address
  has recovery budget left, as the address of the successful verification always has; it is
  answered 429, with nothing changed, when its address has none.
\<close>

theorem challenge_single_use:
  assumes "post_recover_step2 d s req = (Response 204 StatusText, s1)"
      and "body_handle req' = body_handle req"
      and "body_code req' = body_code req"
  shows "post_recover_step2 d s1 req' =
           (if 0 < remainingPoints recoverLimiter (recover_buckets s1) (Date_now req') (ip req')
            then (Response 403 (Error ''Incorrect code''),
                  s1\<lparr>recover_buckets := (recover_buckets s1)(ip req' \<mapsto>
                        (consumedPoints (recover_buckets s1) (Date_now req') (ip req') + 1,
                         window_end recoverLimiter (recover_buckets s1) (Date_now req') (ip req')))\<rparr>)
            else (Response 429
                    (Error ''Too many attempts. Try again later or contact your admin.''), s1)) \<and>
         (ip req' = ip req \<longrightarrow>
            0 < remainingPoints recoverLimiter (recover_buckets s1) (Date_now req') (ip req')) \<and>
         storage (snd (post_recover_step2 d s1 req')) = storage s1 \<and>
         MFA_CACHE (snd (post_recover_step2 d s1 req')) = MFA_CACHE s1 \<and>
         recover_buckets s1 (ip req) = None \<and>
         (\<exists>user. storage_getItem (storage s) (toKey d (the (body_handle req))) = Some user \<and>
                 MFA_CACHE s1 (handle user) = None)"
proof -
  from step2_verified [OF assms(1)] obtain h c user user' where
    h: "body_handle req = Some h" "h \<noteq> []" and
    c: "body_code req = Some c" "c \<noteq> []" and
    u: "storage_getItem (storage s) (toKey d h) = Some user" "enabled user" and
    u': "handle user' = handle user" "enabled user'" and
    s1: "s1 = s\<lparr>storage := storage_setItem (storage s) (toKey d (handle user)) user',
                  recover_buckets := limiter_delete (recover_buckets s) (ip req),
                  MFA_CACHE := Cache_remove (MFA_CACHE s) (handle user)\<rparr>"
    by blast
  obtain user2 where u2: "storage_getItem (storage s1) (toKey d h) = Some user2"
    "enabled user2" "handle user2 = handle user"
    using u u' by (cases "toKey d h = toKey d (handle user)") (auto simp: s1 getItem_setItem)
  have miss: "Cache_get (MFA_CACHE s1) (Date_now req') (handle user2) \<noteq> Some c"
    by (simp add: s1 u2(3) Cache_get_def Cache_remove_def)
  have h': "body_handle req' = Some h" and c': "body_code req' = Some c"
    using assms(2,3) h(1) c(1) by simp_all
  let ?budget = "remainingPoints recoverLimiter (recover_buckets s1) (Date_now req') (ip req')"
  note step = recover_step2_mismatch [OF h' h(2) c' c(2) u2(1,2) miss]
  have same: "0 < ?budget" if "ip req' = ip req"
    using that by (simp add: s1 remaining_recover consumedPoints_def limiter_delete_def)
  have kept: "storage (snd (post_recover_step2 d s1 req')) = storage s1"
    "MFA_CACHE (snd (post_recover_step2 d s1 req')) = MFA_CACHE s1"
    unfolding step by simp_all
  have "recover_buckets s1 (ip req) = None"
    by (simp add: s1 limiter_delete_def)
  moreover have "MFA_CACHE s1 (handle user) = None"
    by (simp add: s1 Cache_remove_def)
  ultimately show ?thesis using u(1) h(1) same step kept by auto
qed

text \<open>
  On the example: the code 1234 verifies once; sent again from the same address it is
  refused with 403 and a point is taken from the bucket that the verification had reset;
  sent again from the second address, which has no budget left, it is refused with 429.
\<close>

theorem challenge_single_use_witness:
  "post_recover_step2 ex_deps ex_issued (ex_verify ''alice'' ''1234'' 1000) =
     (Response 204 StatusText, ex_verified) \<and>
   recover_buckets ex_verified ''203.0.113.7'' = None \<and>
   fst (post_recover_step2 ex_deps ex_verified (ex_verify ''alice'' ''1234'' 2000)) =
     Response 403 (Error ''Incorrect code'') \<and>
   storage (snd (post_recover_step2 ex_deps ex_verified (ex_verify ''alice'' ''1234'' 2000))) =
     storage ex_verified \<and>
   recover_buckets (snd (post_recover_step2 ex_deps ex_verified (ex_verify ''alice'' ''1234'' 2000)))
     ''203.0.113.7'' = Some (1, 302000) \<and>
   post_recover_step2 ex_deps ex_verified_late
     (ex_verify_from ''198.51.100.9'' ''alice'' ''1234'' 2000) =
     (Response 429 (Error ''Too many attempts. Try again later or contact your admin.''),
      ex_verified_late)"
proof -
  have same:
    "body_handle (ex_verify ''alice'' ''1234'' 2000) = body_handle (ex_verify ''alice'' ''1234'' 1000)"
    "body_code (ex_verify ''alice'' ''1234'' 2000) = body_code (ex_verify ''alice'' ''1234'' 1000)"
    by (simp_all add: ex_verify_def ex_request_def)
  have other:
    "body_handle (ex_verify_from ''198.51.100.9'' ''alice'' ''1234'' 2000) =
       body_handle (ex_verify ''alice'' ''1234'' 1500)"
    "body_code (ex_verify_from ''198.51.100.9'' ''alice'' ''1234'' 2000) =
       body_code (ex_verify ''alice'' ''1234'' 1500)"
    by (simp_all add: ex_verify_from_def ex_verify_def ex_request_def)
  have i: "ip (ex_verify ''alice'' ''1234'' t) = ''203.0.113.7''"
    "Date_now (ex_verify ''alice'' ''1234'' t) = t"
    "ip (ex_verify_from ''198.51.100.9'' ''alice'' ''1234'' t) = ''198.51.100.9''"
    "Date_now (ex_verify_from ''198.51.100.9'' ''alice'' ''1234'' t) = t" for t
    by (simp_all add: ex_verify_from_def ex_verify_def ex_request_def)
  have w: "consumedPoints (recover_buckets ex_verified) 2000 ''203.0.113.7'' = 0"
    "window_end recoverLimiter (recover_buckets ex_verified) 2000 ''203.0.113.7'' = 302000"
    if "recover_buckets ex_verified ''203.0.113.7'' = None"
    using that by (simp_all add: consumedPoints_def window_end_def recoverLimiter_def)
  from challenge_single_use [OF ex_step2 same] challenge_single_use [OF ex_step2_late other]
       ex_step2 ex_verified_late_budget
  show ?thesis
    by (simp add: i w remaining_recover)
qed

section \<open>A second challenge for the same handle\<close>

text \<open>
  C8 as stated fails. The code of a challenge is drawn afresh at every issuance, and the
  second draw can repeat the first. On the example both issuances draw 1234: the code that
  was issued first is then the outstanding one, and a step 2 that supplies it is answered
  204. And when the second draw is 5678 but the two issuances and three wrong guesses have
  used up the budget of the address, a step 2 that supplies the first code is answered 429
  and not 403.
\<close>

theorem second_challenge_replaces_first_counterexample:
  "fst (post_recover_step1 ex_deps ex_server (ex_request ''alice'' 0)) = Response 204 StatusText \<and>
   String_nat (randomInt (ex_request ''alice'' 0)) = ''1234'' \<and>
   fst (post_recover_step1 ex_deps ex_issued (ex_request ''alice'' 1000)) = Response 204 StatusText \<and>
   fst (post_recover_step2 ex_deps
          (snd (post_recover_step1 ex_deps ex_issued (ex_request ''alice'' 1000)))
          (ex_verify ''alice'' ''1234'' 2000)) = Response 204 StatusText \<and>
   fst (post_recover_step1 ex_deps (ex_guessed 1000 3)
          ((ex_request ''alice'' 1000)\<lparr>randomInt := 5678\<rparr>)) = Response 204 StatusText \<and>
   fst (post_recover_step2 ex_deps
          (snd (post_recover_step1 ex_deps (ex_guessed 1000 3)
                  ((ex_request ''alice'' 1000)\<lparr>randomInt := 5678\<rparr>)))
          (ex_verify ''alice'' ''1234'' 2000)) =
     Response 429 (Error ''Too many attempts. Try again later or contact your admin.'')"
proof -
  have r: "ex_request ''alice'' 1000 = (ex_request ''alice'' 1000)\<lparr>randomInt := 1234\<rparr>"
    by (simp add: ex_request_def)
  have "fst (post_recover_step2 ex_deps (ex_reissued 1234) (ex_verify ''alice'' ''1234'' 2000)) =
          Response 204 StatusText"
    by (simp add: ex_reissued_fields String_nat_1234 ex_eval)
  moreover have "snd (post_recover_step1 ex_deps ex_issued (ex_request ''alice'' 1000)) =
                   ex_reissued 1234"
    by (subst r) (simp add: ex_step1_again)
  moreover have "fst (post_recover_step1 ex_deps ex_issued (ex_request ''alice'' 1000)) =
                   Response 204 StatusText"
    by (subst r) (simp add: ex_step1_again)
  ultimately have same:
    "fst (post_recover_step1 ex_deps ex_server (ex_request ''alice'' 0)) = Response 204 StatusText \<and>
     String_nat (randomInt (ex_request ''alice'' 0)) = ''1234'' \<and>
     fst (post_recover_step1 ex_deps ex_issued (ex_request ''alice'' 1000)) = Response 204 StatusText \<and>
     fst (post_recover_step2 ex_deps
            (snd (post_recover_step1 ex_deps ex_issued (ex_request ''alice'' 1000)))
            (ex_verify ''alice'' ''1234'' 2000)) = Response 204 StatusText"
    by (simp add: ex_step1) (simp add: ex_request_def String_nat_1234)
  have f: "storage (ex_guessed 1000 3) = storage ex_server"
    "MFA_CACHE (ex_guessed 1000 3) = [''alice'' \<mapsto> (''1234'', 300000)]"
    "recover_buckets (ex_guessed 1000 3) = [''203.0.113.7'' \<mapsto> (4, 300000)]"
    using ex_guessed_fields [of 3] by simp_all
  have "fst (post_recover_step1 ex_deps (ex_guessed 1000 3)
          ((ex_request ''alice'' 1000)\<lparr>randomInt := 5678\<rparr>)) = Response 204 StatusText"
    and "fst (post_recover_step2 ex_deps
          (snd (post_recover_step1 ex_deps (ex_guessed 1000 3)
                  ((ex_request ''alice'' 1000)\<lparr>randomInt := 5678\<rparr>)))
          (ex_verify ''alice'' ''1234'' 2000)) =
     Response 429 (Error ''Too many attempts. Try again later or contact your admin.'')"
    by (simp_all add: f String_nat_5678 ex_eval)
  with same show ?thesis by simp
qed

text \<open>
  C8, amended. After two issuances for the same handle the cache holds one challenge for
  the account, the second one. When the second code drawn differs from the first, a step 2
  that supplies the first code never verifies and leaves the store and the cache, with the
  second challenge in it, as they were: it is answered 403 \<^verbatim>\<open>Incorrect code\<close>, with one
  recovery point taken and nothing else changed, when the address has recovery budget left,
  and 429, with nothing changed, when it has none. When the second code drawn equals the
  first, the first code is the code of the outstanding challenge, and the comparison of
  step 2 finds it equal for as long as the second challenge lives.
\<close>

theorem second_challenge_replaces_first:
  assumes "post_recover_step1 d s req1 = (Response 204 StatusText, s1)"
      and "post_recover_step1 d s1 req2 = (Response 204 StatusText, s2)"
      and "body_handle req2 = body_handle req1"
      and "body_handle req3 = body_handle req1"
      and "body_code req3 = Some (String_nat (randomInt req1))"
  shows "(\<exists>user. storage_getItem (storage s2) (toKey d (the (body_handle req1))) = Some user \<and>
            MFA_CACHE s2 (handle user) =
              Some (String_nat (randomInt req2), Date_now req2 + MFA_CACHE_ttl) \<and>
            (randomInt req2 = randomInt req1 \<and> Date_now req3 < Date_now req2 + MFA_CACHE_ttl \<longrightarrow>
               Cache_get (MFA_CACHE s2) (Date_now req3) (handle user) = body_code req3)) \<and>
         (randomInt req2 \<noteq> randomInt req1 \<longrightarrow>
            post_recover_step2 d s2 req3 =
              (if 0 < remainingPoints recoverLimiter (recover_buckets s2) (Date_now req3) (ip req3)
               then (Response 403 (Error ''Incorrect code''),
                     s2\<lparr>recover_buckets := (recover_buckets s2)(ip req3 \<mapsto>
                          (consumedPoints (recover_buckets s2) (Date_now req3) (ip req3) + 1,
                           window_end recoverLimiter (recover_buckets s2) (Date_now req3)
                             (ip req3)))\<rparr>)
               else (Response 429
                       (Error ''Too many attempts. Try again later or contact your admin.''), s2)) \<and>
            storage (snd (post_recover_step2 d s2 req3)) = storage s2 \<and>
            MFA_CACHE (snd (post_recover_step2 d s2 req3)) = MFA_CACHE s2)"
proof -
  from step1_issued [OF assms(1)] obtain h user where
    h: "body_handle req1 = Some h" "h \<noteq> []" and
    u: "storage_getItem (storage s) (toKey d h) = Some user" "enabled user" and
    st1: "storage s1 = storage s"
    by blast
  from step1_issued [OF assms(2)] assms(3) h(1) u(1) st1 have
    st2: "storage s2 = storage s" and
    c2: "MFA_CACHE s2 = (MFA_CACHE s1)(handle user \<mapsto>
              (String_nat (randomInt req2), Date_now req2 + MFA_CACHE_ttl))"
    by auto
  have h3: "body_handle req3 = Some h"
    using assms(4) h(1) by simp
  have u2: "storage_getItem (storage s2) (toKey d h) = Some user"
    using u(1) st2 by simp
  have out: "MFA_CACHE s2 (handle user) =
               Some (String_nat (randomInt req2), Date_now req2 + MFA_CACHE_ttl)"
    by (simp add: c2)
  have equal: "Cache_get (MFA_CACHE s2) (Date_now req3) (handle user) = body_code req3"
    if "randomInt req2 = randomInt req1" "Date_now req3 < Date_now req2 + MFA_CACHE_ttl"
    using that assms(5) by (simp add: out Cache_get_def)
  have refused: "post_recover_step2 d s2 req3 =
              (if 0 < remainingPoints recoverLimiter (recover_buckets s2) (Date_now req3) (ip req3)
               then (Response 403 (Error ''Incorrect code''),
                     s2\<lparr>recover_buckets := (recover_buckets s2)(ip req3 \<mapsto>
                          (consumedPoints (recover_buckets s2) (Date_now req3) (ip req3) + 1,
                           window_end recoverLimiter (recover_buckets s2) (Date_now req3)
                             (ip req3)))\<rparr>)
               else (Response 429
                       (Error ''Too many attempts. Try again later or contact your admin.''), s2))"
    if "randomInt req2 \<noteq> randomInt req1"
  proof -
    from that have "String_nat (randomInt req2) \<noteq> String_nat (randomInt req1)"
      using String_nat_inj by blast
    then have miss: "Cache_get (MFA_CACHE s2) (Date_now req3) (handle user) \<noteq>
                       Some (String_nat (randomInt req1))"
      by (simp add: out Cache_get_def)
    from recover_step2_mismatch [OF h3 h(2) assms(5) String_nat_not_Nil u2 u(2) miss]
    show ?thesis .
  qed
  have kept: "storage (snd (post_recover_step2 d s2 req3)) = storage s2 \<and>
              MFA_CACHE (snd (post_recover_step2 d s2 req3)) = MFA_CACHE s2"
    if "randomInt req2 \<noteq> randomInt req1"
    unfolding refused [OF that] by simp
  from u2 h(1) out equal refused kept show ?thesis
    by auto
qed

text \<open>
  On the example: the second issuance draws 5678; the first code 1234 is refused, with a
  point taken, and the second code is accepted.
\<close>

theorem second_challenge_replaces_first_witness:
  "post_recover_step2 ex_deps (ex_reissued 5678) (ex_verify ''alice'' ''1234'' 2000) =
     (Response 403 (Error ''Incorrect code''),
      (ex_reissued 5678)\<lparr>recover_buckets := [''203.0.113.7'' \<mapsto> (3, 300000)]\<rparr>) \<and>
   fst (post_recover_step2 ex_deps (ex_reissued 5678) (ex_verify ''alice'' ''5678'' 2000)) =
     Response 204 StatusText \<and>
   MFA_CACHE (ex_reissued 5678) ''alice'' = Some (''5678'', 301000)"
proof -
  let ?req1 = "ex_request ''alice'' 0"
  let ?req2 = "(ex_request ''alice'' 1000)\<lparr>randomInt := 5678\<rparr>"
  let ?req3 = "ex_verify ''alice'' ''1234'' 2000"
  have h2: "body_handle ?req2 = body_handle ?req1"
    and h3: "body_handle ?req3 = body_handle ?req1"
    and c: "body_code ?req3 = Some (String_nat (randomInt ?req1))"
    by (simp_all add: ex_verify_def ex_request_def String_nat_1234)
  have n: "randomInt ?req2 \<noteq> randomInt ?req1"
    by (simp add: ex_request_def)
  have i: "Date_now ?req3 = 2000" "ip ?req3 = ''203.0.113.7''"
    by (simp_all add: ex_verify_def ex_request_def)
  have b: "0 < remainingPoints recoverLimiter (recover_buckets (ex_reissued 5678)) 2000
                 ''203.0.113.7''"
    by (simp add: ex_reissued_fields remaining_recover consumedPoints_def)
  have ok: "fst (post_recover_step2 ex_deps (ex_reissued 5678) (ex_verify ''alice'' ''5678'' 2000)) =
              Response 204 StatusText"
    by (simp add: ex_reissued_fields String_nat_5678 ex_eval)
  from second_challenge_replaces_first [OF ex_step1 ex_step1_again h2 h3 c] n b ok
  show ?thesis
    by (simp add: i ex_reissued_fields String_nat_5678 consumedPoints_def window_end_def)
qed

section \<open>Accounts without a password\<close>

text \<open>
  C5 as stated fails. On the example an account is created without a password while
  \<^verbatim>\<open>getPasswordSalt()\<close> returns \<^verbatim>\<open>pepper\<close>: the record stored has an empty hash and the salt
  \<^verbatim>\<open>pepper\<close>, not an empty salt.
\<close>

theorem passwordless_record_fields_counterexample:
  "body_password ex_create = None \<and>
   fst (post_create ex_deps ex_server ex_create) = Response 200 (Handle ''zoe'') \<and>
   map_option password (storage_getItem (storage (snd (post_create ex_deps ex_server ex_create)))
                          (toKey ex_deps ''zoe'')) = Some [] \<and>
   map_option salt (storage_getItem (storage (snd (post_create ex_deps ex_server ex_create)))
                      (toKey ex_deps ''zoe'')) = Some ''pepper''"
  by (simp add: post_create_def ex_create_def ex_request_def ex_server_def ex_deps_def
        ex_user_def getAllUserHandles_def storage_values_def storage_getItem_def
        storage_setItem_def Let_def)

text \<open>
  C5, amended. An account created without a password is stored with an empty hash, which
  is what the login tests, and with the salt that was generated for the request. A step 2
  answered 204 for a request without a new password stores the account with an empty hash
  and an empty salt.
\<close>

theorem passwordless_record_fields:
  "(\<not> truthy (body_password req) \<and> post_create d s req = (Response 200 (Handle h), s') \<longrightarrow>
      (\<exists>u. storage_getItem (storage s') (toKey d h) = Some u \<and> handle u = h \<and>
           password u = [] \<and> salt u = getPasswordSalt req)) \<and>
   (\<not> truthy (body_newPassword req2) \<and>
    post_recover_step2 d s2 req2 = (Response 204 StatusText, s2') \<longrightarrow>
      (\<exists>u. storage_getItem (storage s2) (toKey d (the (body_handle req2))) = Some u \<and>
           storage_getItem (storage s2') (toKey d (handle u)) =
             Some (u\<lparr>password := [], salt := []\<rparr>)))"
proof (intro conjI impI)
  assume "\<not> truthy (body_password req) \<and> post_create d s req = (Response 200 (Handle h), s')"
  then show "\<exists>u. storage_getItem (storage s') (toKey d h) = Some u \<and> handle u = h \<and>
           password u = [] \<and> salt u = getPasswordSalt req"
    by (auto simp: post_create_def Let_def getItem_setItem split: if_splits option.splits)
next
  assume a: "\<not> truthy (body_newPassword req2) \<and>
    post_recover_step2 d s2 req2 = (Response 204 StatusText, s2')"
  from step2_verified [of d s2 req2 s2'] a
  show "\<exists>u. storage_getItem (storage s2) (toKey d (the (body_handle req2))) = Some u \<and>
           storage_getItem (storage s2') (toKey d (handle u)) =
             Some (u\<lparr>password := [], salt := []\<rparr>)"
    by (auto simp: getItem_setItem)
qed

text \<open>
  On the example: the account created without a password, and the account whose password
  was cleared by a recovery.
\<close>

theorem passwordless_record_fields_witness:
  "(\<exists>u. storage_getItem (storage (snd (post_create ex_deps ex_server ex_create)))
           (toKey ex_deps ''zoe'') = Some u \<and>
        handle u = ''zoe'' \<and> password u = [] \<and> salt u = ''pepper'') \<and>
   storage_getItem (storage ex_verified) (toKey ex_deps ''alice'') =
     Some (ex_user ''alice'' [] [] True)"
proof -
  have c: "\<not> truthy (body_password ex_create) \<and>
           post_create ex_deps ex_server ex_create =
             (Response 200 (Handle ''zoe''), snd (post_create ex_deps ex_server ex_create))"
  proof -
    have "fst (post_create ex_deps ex_server ex_create) = Response 200 (Handle ''zoe'')"
      by (simp add: post_create_def ex_create_def ex_request_def ex_server_def ex_deps_def
            ex_user_def getAllUserHandles_def storage_values_def Let_def)
    then show ?thesis
      by (simp add: prod_eq_iff) (simp add: ex_create_def)
  qed
  have v: "\<not> truthy (body_newPassword (ex_verify ''alice'' ''1234'' 1000)) \<and>
           post_recover_step2 ex_deps ex_issued (ex_verify ''alice'' ''1234'' 1000) =
             (Response 204 StatusText, ex_verified)"
    by (simp add: ex_step2) (simp add: ex_verify_def ex_request_def)
  have s: "getPasswordSalt ex_create = ''pepper''"
    by (simp add: ex_create_def ex_request_def)
  have a: "the (body_handle (ex_verify ''alice'' ''1234'' 1000)) = ''alice''"
    by (simp add: ex_verify_def ex_request_def)
  from passwordless_record_fields
         [of ex_create ex_deps ex_server "''zoe''" "snd (post_create ex_deps ex_server ex_create)"
             "ex_verify ''alice'' ''1234'' 1000" ex_issued ex_verified] c v
  show ?thesis
    by (auto simp: s a ex_issued_alice ex_user_def)
qed

section \<open>Self-protection and the fallback account\<close>

text \<open>
  C9. For a caller that \<^verbatim>\<open>requireAdminMiddleware\<close> let through: disable, demote and delete
  invoked with the caller's own handle answer 400 and leave the state as it is, whatever
  the state, and the message is that of the self-action (a handle is never empty); delete
  invoked with the handle of \<^verbatim>\<open>DEFAULT_USER\<close> answers 400 and leaves the state as it is, store
  and data directories included, whoever the caller.
\<close>

theorem admin_self_and_fallback_protection:
  "(body_handle req = Some (user_profile_handle req) \<longrightarrow>
      status (fst (post_disable d s req)) = 400 \<and> snd (post_disable d s req) = s \<and>
      status (fst (post_demote d s req)) = 400 \<and> snd (post_demote d s req) = s \<and>
      status (fst (post_delete d s req)) = 400 \<and> snd (post_delete d s req) = s \<and>
      (user_profile_handle req \<noteq> [] \<longrightarrow>
         fst (post_disable d s req) = Response 400 (Error ''Cannot disable yourself'') \<and>
         fst (post_demote d s req) = Response 400 (Error ''Cannot demote yourself'') \<and>
         fst (post_delete d s req) = Response 400 (Error ''Cannot delete yourself''))) \<and>
   (body_handle req = Some (DEFAULT_USER_handle d) \<longrightarrow>
      status (fst (post_delete d s req)) = 400 \<and> snd (post_delete d s req) = s)"
proof (intro conjI impI)
  assume self: "body_handle req = Some (user_profile_handle req)"
  show "status (fst (post_disable d s req)) = 400" "snd (post_disable d s req) = s"
    using self by (simp_all add: post_disable_def)
  show "status (fst (post_demote d s req)) = 400" "snd (post_demote d s req) = s"
    using self by (simp_all add: post_demote_def)
  show "status (fst (post_delete d s req)) = 400" "snd (post_delete d s req) = s"
    using self by (simp_all add: post_delete_def)
  assume "user_profile_handle req \<noteq> []"
  with self show "fst (post_disable d s req) = Response 400 (Error ''Cannot disable yourself'')"
    "fst (post_demote d s req) = Response 400 (Error ''Cannot demote yourself'')"
    "fst (post_delete d s req) = Response 400 (Error ''Cannot delete yourself'')"
    by (simp_all add: post_disable_def post_demote_def post_delete_def)
next
  assume "body_handle req = Some (DEFAULT_USER_handle d)"
  then show "status (fst (post_delete d s req)) = 400" "snd (post_delete d s req) = s"
    by (simp_all add: post_delete_def)
qed

text \<open>
  On the example: the caller \<^verbatim>\<open>root\<close> acting on \<^verbatim>\<open>root\<close> and on the fallback account; the
  same caller deleting another account is answered 204.
\<close>

theorem admin_self_and_fallback_protection_witness:
  "post_disable ex_deps ex_server (ex_request ''root'' 0) =
     (Response 400 (Error ''Cannot disable yourself''), ex_server) \<and>
   post_demote ex_deps ex_server (ex_request ''root'' 0) =
     (Response 400 (Error ''Cannot demote yourself''), ex_server) \<and>
   post_delete ex_deps ex_server (ex_request ''root'' 0) =
     (Response 400 (Error ''Cannot delete yourself''), ex_server) \<and>
   post_delete ex_deps ex_server (ex_request ''default-user'' 0) =
     (Response 400
        (Error ''Sorry, but the default user cannot be deleted. It is required as a fallback.''),
      ex_server) \<and>
   fst (post_delete ex_deps ex_server (ex_request ''guest'' 0)) = Response 204 StatusText"
proof -
  have self: "body_handle (ex_request ''root'' 0) = Some (user_profile_handle (ex_request ''root'' 0))"
    and ne: "user_profile_handle (ex_request ''root'' 0) \<noteq> []"
    by (simp_all add: ex_request_def)
  have dflt: "body_handle (ex_request ''default-user'' 0) = Some (DEFAULT_USER_handle ex_deps)"
    by (simp add: ex_request_def ex_deps_def)
  have msg: "fst (post_delete ex_deps ex_server (ex_request ''default-user'' 0)) =
      Response 400
        (Error ''Sorry, but the default user cannot be deleted. It is required as a fallback.'')"
    by (simp add: post_delete_def ex_request_def ex_deps_def)
  have other: "fst (post_delete ex_deps ex_server (ex_request ''guest'' 0)) =
                 Response 204 StatusText"
    by (simp add: post_delete_def ex_request_def ex_deps_def Let_def)
  from admin_self_and_fallback_protection [of "ex_request ''root'' 0" ex_deps ex_server] self ne
       admin_self_and_fallback_protection [of "ex_request ''default-user'' 0" ex_deps ex_server]
       dflt msg other
  show ?thesis
    by (simp add: prod_eq_iff)
qed

end
